theory Spec2Isabelle
  imports Complex_Main
begin

section \<open>Dense matrices and vectors\<close>

text \<open>
  The sources store their data in \<^verbatim>\<open>Eigen::VectorXd\<close> and \<^verbatim>\<open>Eigen::MatrixXd\<close>.
  A vector is the list of its coefficients; \<^verbatim>\<open>v.rows()\<close> and \<^verbatim>\<open>v.size()\<close> are its
  length.  A matrix is the list of its rows together with its column count, which a
  matrix keeps when it has no row (\<^verbatim>\<open>setZero(0,0)\<close> is not a \<open>0 \<times> n\<close> matrix).
  Coefficients are \<^verbatim>\<open>double\<close>s; the functions below only compare, copy and (in the
  aggregation) multiply them, and they are taken as real numbers: there is no NaN
  and no rounding here.
\<close>

type_synonym vec = "real list"

record matrix =
  cols :: nat
  coeffs :: "real list list"

definition rows :: "matrix \<Rightarrow> nat" where
  "rows M = length (coeffs M)"

text \<open>\<^verbatim>\<open>M.setZero(0,0)\<close>: the empty matrix of a freshly constructed object.\<close>

definition setZero00 :: matrix where
  "setZero00 = \<lparr>cols = 0, coeffs = []\<rparr>"

section \<open>Constraint (include/OpenSoT/Constraint.h)\<close>

text \<open>
  The private members of \<^verbatim>\<open>OpenSoT::Constraint\<close>; the member \<^verbatim>\<open>_Aineq\<close> is the field
  \<open>c_Aineq\<close>, and so on.  A default-constructed Eigen vector or matrix is empty.
\<close>

record Constraint =
  c_constraint_id :: string
  c_x_size :: nat
  c_lowerBound :: vec
  c_upperBound :: vec
  c_Aeq :: matrix
  c_beq :: vec
  c_Aineq :: matrix
  c_bLowerBound :: vec
  c_bUpperBound :: vec

definition isEqualityConstraint :: "Constraint \<Rightarrow> bool" where
  "isEqualityConstraint c = (rows (c_Aeq c) > 0)"

definition isInequalityConstraint :: "Constraint \<Rightarrow> bool" where
  "isInequalityConstraint c = (rows (c_Aineq c) > 0)"

definition isUnilateralConstraint :: "Constraint \<Rightarrow> bool" where
  "isUnilateralConstraint c =
     (isInequalityConstraint c \<and>
      (length (c_bLowerBound c) = 0 \<or> length (c_bUpperBound c) = 0))"

definition isBilateralConstraint :: "Constraint \<Rightarrow> bool" where
  "isBilateralConstraint c = (isInequalityConstraint c \<and> \<not> isUnilateralConstraint c)"

definition hasBounds :: "Constraint \<Rightarrow> bool" where
  "hasBounds c = (length (c_upperBound c) > 0 \<or> length (c_lowerBound c) > 0)"

definition isConstraint :: "Constraint \<Rightarrow> bool" where
  "isConstraint c = (isEqualityConstraint c \<or> isInequalityConstraint c)"

definition isBound :: "Constraint \<Rightarrow> bool" where
  "isBound c = (hasBounds c \<and> \<not> isConstraint c)"

text \<open>
  An inequality constraint of one row over two variables on which neither
  \<^verbatim>\<open>setLowerBoundIneq\<close> nor \<^verbatim>\<open>setUpperBoundIneq\<close> has been called.
\<close>

definition unbounded_inequality :: Constraint where
  "unbounded_inequality =
     \<lparr>c_constraint_id = ''free'', c_x_size = 2, c_lowerBound = [], c_upperBound = [],
      c_Aeq = setZero00, c_beq = [],
      c_Aineq = \<lparr>cols = 2, coeffs = [[1, 0]]\<rparr>, c_bLowerBound = [], c_bUpperBound = []\<rparr>"

section \<open>The active-set backend (src/solvers/QPOasesProblem.cpp)\<close>

subsection \<open>The qpOASES library\<close>

text \<open>
  \<^verbatim>\<open>qpOASES::returnValue\<close>: the backend compares a return value with
  \<^verbatim>\<open>SUCCESSFUL_RETURN\<close> (and, for printing only, with
  \<^verbatim>\<open>RET_INIT_FAILED_INFEASIBILITY\<close>); every other code is \<open>RET_OTHER\<close> with its number.
\<close>

datatype returnValue =
  SUCCESSFUL_RETURN | RET_INIT_FAILED_INFEASIBILITY | RET_OTHER nat

text \<open>
  The library itself is not part of the repository.  The backend is therefore
  parameterised by the operations it calls on it: \<open>'p\<close> is the state of a
  \<^verbatim>\<open>qpOASES::SQProblem\<close> object, \<open>'o\<close> is \<^verbatim>\<open>qpOASES::Options\<close>, \<open>'b\<close> is
  \<^verbatim>\<open>qpOASES::Bounds\<close>, \<open>'c\<close> is \<^verbatim>\<open>qpOASES::Constraints\<close> and \<open>'h\<close> is the Hessian type.

  \<^item> \<open>INFTY\<close> is the constant \<^verbatim>\<open>qpOASES::INFTY\<close>.
  \<^item> \<open>SQProblem_new nV nC ht\<close> is \<^verbatim>\<open>new qpOASES::SQProblem(nV, nC, ht)\<close>.
  \<^item> \<open>SQProblem_init p H g A lb ub lbA ubA nWSR guess\<close> is \<^verbatim>\<open>p->init(...)\<close> with
    \<^verbatim>\<open>cputime = 0\<close>; \<open>guess\<close> is \<open>None\<close> for the call without an initial guess and
    \<open>Some (xOpt, yOpt, guessedBounds, guessedConstraints)\<close> for the call with one.
    It returns the return value, the object's new state and the new value of the
    in/out parameter \<^verbatim>\<open>int& nWSR\<close>.
  \<^item> \<open>SQProblem_hotstart\<close> is \<^verbatim>\<open>p->hotstart(...)\<close>, with the same results.
  \<^item> \<open>getPrimalSolution p buf\<close> is \<^verbatim>\<open>p->getPrimalSolution(buf.data())\<close>: the return
    value and the new content of the buffer; \<open>getDualSolution\<close>, \<open>getBounds\<close> and
    \<open>getConstraints\<close> return the new content of the object they write to (their
    return values are ignored by the backend).
  \<^item> \<open>uninitialized n\<close> is the content of an Eigen vector of \<open>n\<close> coefficients that
    has just been allocated (\<^verbatim>\<open>VectorXd(n)\<close>, \<^verbatim>\<open>resize(n)\<close> to a new size).
  \<^item> \<open>Bounds_new\<close>, \<open>Constraints_new\<close> and \<open>Options_new\<close> are the default-constructed
    objects, and \<open>defaultOptions eps\<close> is the \<^verbatim>\<open>Options\<close> value that
    \<^verbatim>\<open>setDefaultOptions\<close> builds from the regularisation factor \<open>eps\<close>.
\<close>

record ('p, 'o, 'b, 'c, 'h) qpOASES =
  INFTY :: real
  SQProblem_new :: "nat \<Rightarrow> nat \<Rightarrow> 'h \<Rightarrow> 'p"
  SQProblem_setOptions :: "'p \<Rightarrow> 'o \<Rightarrow> 'p"
  SQProblem_getHessianType :: "'p \<Rightarrow> 'h"
  SQProblem_init ::
    "'p \<Rightarrow> matrix \<Rightarrow> vec \<Rightarrow> matrix \<Rightarrow> vec \<Rightarrow> vec \<Rightarrow> vec \<Rightarrow> vec \<Rightarrow> int \<Rightarrow>
     (vec \<times> vec \<times> 'b \<times> 'c) option \<Rightarrow> returnValue \<times> 'p \<times> int"
  SQProblem_hotstart ::
    "'p \<Rightarrow> matrix \<Rightarrow> vec \<Rightarrow> matrix \<Rightarrow> vec \<Rightarrow> vec \<Rightarrow> vec \<Rightarrow> vec \<Rightarrow> int \<Rightarrow>
     returnValue \<times> 'p \<times> int"
  getNV :: "'p \<Rightarrow> nat"
  getNC :: "'p \<Rightarrow> nat"
  getPrimalSolution :: "'p \<Rightarrow> vec \<Rightarrow> returnValue \<times> vec"
  getDualSolution :: "'p \<Rightarrow> vec \<Rightarrow> vec"
  getBounds :: "'p \<Rightarrow> 'b \<Rightarrow> 'b"
  getConstraints :: "'p \<Rightarrow> 'c \<Rightarrow> 'c"
  uninitialized :: "nat \<Rightarrow> vec"
  Bounds_new :: 'b
  Constraints_new :: 'c
  Options_new :: 'o
  defaultOptions :: "real \<Rightarrow> 'o"

subsection \<open>The backend's state\<close>

text \<open>
  The data members of \<^verbatim>\<open>QPOasesProblem\<close>: the member \<^verbatim>\<open>_H\<close> is the field \<open>m_H\<close>, and
  so on.  \<open>m_problem\<close>, \<open>m_bounds\<close>, \<open>m_constraints\<close> and \<open>m_opt\<close> are the objects the
  shared pointers point to; the backend's own functions are the only ones that act
  on them here.  Sizes are natural numbers (the source's \<^verbatim>\<open>int\<close> and
  \<^verbatim>\<open>unsigned int\<close> hold every size that occurs), and the functions are those of a
  build with \<^verbatim>\<open>NDEBUG\<close>: every \<^verbatim>\<open>assert\<close> and every block under
  \<^verbatim>\<open>#ifndef NDEBUG\<close> (which only prints) is compiled out, so that a failed check
  reaches its \<^verbatim>\<open>return false\<close>.
\<close>

record ('p, 'o, 'b, 'c) QPOasesProblem =
  m_problem :: 'p
  m_bounds :: 'b
  m_constraints :: 'c
  m_nWSR :: int
  m_epsRegularisation :: real
  m_H :: matrix
  m_g :: vec
  m_A :: matrix
  m_lA :: vec
  m_uA :: vec
  m_l :: vec
  m_u :: vec
  m_solution :: vec
  m_dual_solution :: vec
  m_opt :: 'o

subsection \<open>checkINFTY\<close>

text \<open>
  One loop of \<^verbatim>\<open>checkINFTY\<close>, from index \<open>i\<close> up to \<open>n\<close>, over a vector of lower
  values \<open>lo\<close> and a vector of upper values \<open>up\<close>:
  \<^verbatim>\<open>if(lo[i] < -INFTY) lo[i] = -INFTY; if(up[i] > INFTY) up[i] = INFTY;\<close>
  The source runs it once on \<^verbatim>\<open>_lA\<close>, \<^verbatim>\<open>_uA\<close> and once on \<^verbatim>\<open>_l\<close>, \<^verbatim>\<open>_u\<close>.  The bound
  \<open>n\<close> is the size of the lower vector only, and Eigen does not check an index
  when \<^verbatim>\<open>NDEBUG\<close> is defined: an access beyond the end of a vector is undefined
  behaviour, the result \<open>None\<close>.
\<close>

function checkINFTY_loop ::
  "real \<Rightarrow> nat \<Rightarrow> nat \<Rightarrow> vec \<Rightarrow> vec \<Rightarrow> (vec \<times> vec) option" where
  "checkINFTY_loop infty i n lo up =
     (if i < n then
        (if i < length lo \<and> i < length up then
           checkINFTY_loop infty (Suc i) n
             (if lo ! i < - infty then lo[i := - infty] else lo)
             (if up ! i > infty then up[i := infty] else up)
         else None)
      else Some (lo, up))"
  by pat_completeness auto
termination
  by (relation "measure (\<lambda>(infty, i, n, lo, up). n - i)") auto

declare checkINFTY_loop.simps [simp del]

definition checkINFTY ::
  "('p, 'o, 'b, 'c, 'h) qpOASES \<Rightarrow> ('p, 'o, 'b, 'c) QPOasesProblem \<Rightarrow>
   ('p, 'o, 'b, 'c) QPOasesProblem option" where
  "checkINFTY q s =
     (let constraints_size = length (m_lA s) in
      case checkINFTY_loop (INFTY q) 0 constraints_size (m_lA s) (m_uA s) of
        None \<Rightarrow> None
      | Some (lA', uA') \<Rightarrow>
          (let bounds_size = length (m_l s) in
           case checkINFTY_loop (INFTY q) 0 bounds_size (m_l s) (m_u s) of
             None \<Rightarrow> None
           | Some (l', u') \<Rightarrow> Some (s\<lparr>m_lA := lA', m_uA := uA', m_l := l', m_u := u'\<rparr>)))"

subsection \<open>initProblem\<close>

text \<open>
  Lines 124 to 134 of \<^verbatim>\<open>initProblem\<close>, repeated as lines 291 to 301 of \<^verbatim>\<open>solve\<close>:
  the solution vectors are resized to the problem's dimensions when these have
  changed, then the primal solution, the dual solution and the two active sets are
  read from the solved problem.  The result is the return value of
  \<^verbatim>\<open>getPrimalSolution\<close> with the new state.
\<close>

definition readSolution ::
  "('p, 'o, 'b, 'c, 'h) qpOASES \<Rightarrow> ('p, 'o, 'b, 'c) QPOasesProblem \<Rightarrow>
   returnValue \<times> ('p, 'o, 'b, 'c) QPOasesProblem" where
  "readSolution q s =
     (let p = m_problem s;
          s = (if length (m_solution s) \<noteq> getNV q p
               then s\<lparr>m_solution := uninitialized q (getNV q p)\<rparr> else s);
          s = (if length (m_dual_solution s) \<noteq> getNV q p + getNC q p
               then s\<lparr>m_dual_solution := uninitialized q (getNV q p + getNC q p)\<rparr> else s);
          (success, x) = getPrimalSolution q p (m_solution s);
          s = s\<lparr>m_solution := x\<rparr>;
          s = s\<lparr>m_dual_solution := getDualSolution q p (m_dual_solution s)\<rparr>;
          s = s\<lparr>m_bounds := getBounds q p (m_bounds s)\<rparr>;
          s = s\<lparr>m_constraints := getConstraints q p (m_constraints s)\<rparr>
      in (success, s))"

text \<open>
  \<^verbatim>\<open>initProblem\<close> stores its arguments, sanitises them, validates the sizes and
  only then calls the solver.  The result is \<open>None\<close> when \<^verbatim>\<open>checkINFTY\<close> has read
  beyond a vector, and otherwise the returned \<^verbatim>\<open>bool\<close> with the new state.
\<close>

definition initProblem ::
  "('p, 'o, 'b, 'c, 'h) qpOASES \<Rightarrow> ('p, 'o, 'b, 'c) QPOasesProblem \<Rightarrow>
   matrix \<Rightarrow> vec \<Rightarrow> matrix \<Rightarrow> vec \<Rightarrow> vec \<Rightarrow> vec \<Rightarrow> vec \<Rightarrow>
   (bool \<times> ('p, 'o, 'b, 'c) QPOasesProblem) option" where
  "initProblem q s H g A lA uA l u =
     (case checkINFTY q
             (s\<lparr>m_H := H, m_g := g, m_A := A, m_lA := lA, m_uA := uA, m_l := l, m_u := u\<rparr>) of
        None \<Rightarrow> None
      | Some s \<Rightarrow>
          if \<not> (length (m_l s) = length (m_u s)) then Some (False, s)
          else if \<not> (length (m_lA s) = rows (m_A s)) then Some (False, s)
          else if \<not> (length (m_lA s) = length (m_uA s)) then Some (False, s)
          else
            (let nWSR = m_nWSR s;
                 (val, p, nWSR) =
                    SQProblem_init q (m_problem s) (m_H s) (m_g s) (m_A s)
                      (m_l s) (m_u s) (m_lA s) (m_uA s) nWSR None;
                 s = s\<lparr>m_problem := p\<rparr>
             in if val \<noteq> SUCCESSFUL_RETURN then Some (False, s)
                else
                  (let (success, s) = readSolution q s
                   in if success \<noteq> SUCCESSFUL_RETURN then Some (False, s)
                      else Some (True, s))))"

subsection \<open>The update functions\<close>

text \<open>
  The two lines that replace the solver object when a row count has changed
  (lines 168 to 176 and 211 to 219): a new \<^verbatim>\<open>SQProblem\<close> for \<^verbatim>\<open>_H.cols()\<close> variables
  and \<^verbatim>\<open>_A.rows()\<close> constraints, of the old object's Hessian type, with the stored
  options.
\<close>

definition rebuildProblem ::
  "('p, 'o, 'b, 'c, 'h) qpOASES \<Rightarrow> ('p, 'o, 'b, 'c) QPOasesProblem \<Rightarrow>
   ('p, 'o, 'b, 'c) QPOasesProblem" where
  "rebuildProblem q s =
     (let hessian_type = SQProblem_getHessianType q (m_problem s);
          number_of_variables = cols (m_H s);
          number_of_constraints = rows (m_A s);
          s = s\<lparr>m_problem :=
                  SQProblem_new q number_of_variables number_of_constraints hessian_type\<rparr>
      in s\<lparr>m_problem := SQProblem_setOptions q (m_problem s) (m_opt s)\<rparr>)"

definition updateTask ::
  "('p, 'o, 'b, 'c, 'h) qpOASES \<Rightarrow> ('p, 'o, 'b, 'c) QPOasesProblem \<Rightarrow>
   matrix \<Rightarrow> vec \<Rightarrow> (bool \<times> ('p, 'o, 'b, 'c) QPOasesProblem) option" where
  "updateTask q s H g =
     (if \<not> (length (m_g s) = rows (m_H s)) then Some (False, s)
      else if \<not> (cols (m_H s) = cols H) then Some (False, s)
      else if rows (m_H s) = rows H then Some (True, s\<lparr>m_H := H, m_g := g\<rparr>)
      else
        (let s = rebuildProblem q (s\<lparr>m_H := H, m_g := g\<rparr>)
         in initProblem q s (m_H s) (m_g s) (m_A s) (m_lA s) (m_uA s) (m_l s) (m_u s)))"

definition updateConstraints ::
  "('p, 'o, 'b, 'c, 'h) qpOASES \<Rightarrow> ('p, 'o, 'b, 'c) QPOasesProblem \<Rightarrow>
   matrix \<Rightarrow> vec \<Rightarrow> vec \<Rightarrow> (bool \<times> ('p, 'o, 'b, 'c) QPOasesProblem) option" where
  "updateConstraints q s A lA uA =
     (if \<not> (cols A = cols (m_H s)) then Some (False, s)
      else if \<not> (length lA = rows A) then Some (False, s)
      else if \<not> (length lA = length uA) then Some (False, s)
      else if rows A = rows (m_A s) then Some (True, s\<lparr>m_A := A, m_lA := lA, m_uA := uA\<rparr>)
      else
        (let s = rebuildProblem q (s\<lparr>m_A := A, m_lA := lA, m_uA := uA\<rparr>)
         in initProblem q s (m_H s) (m_g s) (m_A s) (m_lA s) (m_uA s) (m_l s) (m_u s)))"

text \<open>\<^verbatim>\<open>updateBounds\<close> calls nothing that can fail to return: its result is a pair.\<close>

definition updateBounds ::
  "('p, 'o, 'b, 'c) QPOasesProblem \<Rightarrow> vec \<Rightarrow> vec \<Rightarrow>
   bool \<times> ('p, 'o, 'b, 'c) QPOasesProblem" where
  "updateBounds s l u =
     (if \<not> (length l = length (m_l s)) then (False, s)
      else if \<not> (length u = length (m_u s)) then (False, s)
      else if \<not> (length l = length u) then (False, s)
      else (True, s\<lparr>m_l := l, m_u := u\<rparr>))"

text \<open>
  The statement \<^verbatim>\<open>success = success && f(...)\<close> of \<^verbatim>\<open>updateProblem\<close>: C++ evaluates
  the call only when \<^verbatim>\<open>success\<close> is true.
\<close>

definition and_then ::
  "bool \<Rightarrow> ('s \<Rightarrow> (bool \<times> 's) option) \<Rightarrow> 's \<Rightarrow> (bool \<times> 's) option" where
  "and_then success f s = (if success then f s else Some (False, s))"

definition updateProblem ::
  "('p, 'o, 'b, 'c, 'h) qpOASES \<Rightarrow> ('p, 'o, 'b, 'c) QPOasesProblem \<Rightarrow>
   matrix \<Rightarrow> vec \<Rightarrow> matrix \<Rightarrow> vec \<Rightarrow> vec \<Rightarrow> vec \<Rightarrow> vec \<Rightarrow>
   (bool \<times> ('p, 'o, 'b, 'c) QPOasesProblem) option" where
  "updateProblem q s H g A lA uA l u =
     (let success = True in
      case and_then success (\<lambda>s. Some (updateBounds s l u)) s of
        None \<Rightarrow> None
      | Some (success, s) \<Rightarrow>
          (case and_then success (\<lambda>s. updateConstraints q s A lA uA) s of
             None \<Rightarrow> None
           | Some (success, s) \<Rightarrow>
               (case and_then success (\<lambda>s. updateTask q s H g) s of
                  None \<Rightarrow> None
                | Some (success, s) \<Rightarrow> Some (success, s))))"

subsection \<open>solve\<close>

text \<open>
  Lines 290 to 309 of \<^verbatim>\<open>solve\<close>, reached when the hotstart or the warm-started
  \<^verbatim>\<open>init\<close> has returned \<^verbatim>\<open>SUCCESSFUL_RETURN\<close>: the solution is read, and a primal
  solution that cannot be read sends the function to \<^verbatim>\<open>initProblem\<close>.
\<close>

definition solve_finish ::
  "('p, 'o, 'b, 'c, 'h) qpOASES \<Rightarrow> ('p, 'o, 'b, 'c) QPOasesProblem \<Rightarrow>
   (bool \<times> ('p, 'o, 'b, 'c) QPOasesProblem) option" where
  "solve_finish q s =
     (let (success, s) = readSolution q s
      in if success \<noteq> SUCCESSFUL_RETURN
         then initProblem q s (m_H s) (m_g s) (m_A s) (m_lA s) (m_uA s) (m_l s) (m_u s)
         else Some (True, s))"

text \<open>
  The local \<^verbatim>\<open>nWSR\<close> is passed by reference: the warm-started \<^verbatim>\<open>init\<close> receives the
  value the hotstart has left in it.
\<close>

definition solve ::
  "('p, 'o, 'b, 'c, 'h) qpOASES \<Rightarrow> ('p, 'o, 'b, 'c) QPOasesProblem \<Rightarrow>
   (bool \<times> ('p, 'o, 'b, 'c) QPOasesProblem) option" where
  "solve q s =
     (let nWSR = m_nWSR s in
      case checkINFTY q s of
        None \<Rightarrow> None
      | Some s \<Rightarrow>
          (let (val, p, nWSR) =
                 SQProblem_hotstart q (m_problem s) (m_H s) (m_g s) (m_A s)
                   (m_l s) (m_u s) (m_lA s) (m_uA s) nWSR;
               s = s\<lparr>m_problem := p\<rparr>
           in if val \<noteq> SUCCESSFUL_RETURN then
                (let (val, p, nWSR) =
                       SQProblem_init q (m_problem s) (m_H s) (m_g s) (m_A s)
                         (m_l s) (m_u s) (m_lA s) (m_uA s) nWSR
                         (Some (m_solution s, m_dual_solution s, m_bounds s, m_constraints s));
                     s = s\<lparr>m_problem := p\<rparr>
                 in if val \<noteq> SUCCESSFUL_RETURN
                    then initProblem q s (m_H s) (m_g s) (m_A s) (m_lA s) (m_uA s) (m_l s) (m_u s)
                    else solve_finish q s)
              else solve_finish q s))"

subsection \<open>Construction\<close>

definition setDefaultOptions ::
  "('p, 'o, 'b, 'c, 'h) qpOASES \<Rightarrow> ('p, 'o, 'b, 'c) QPOasesProblem \<Rightarrow>
   ('p, 'o, 'b, 'c) QPOasesProblem" where
  "setDefaultOptions q s =
     (let opt = defaultOptions q (m_epsRegularisation s)
      in s\<lparr>m_problem := SQProblem_setOptions q (m_problem s) opt, m_opt := opt\<rparr>)"

text \<open>The constructor \<^verbatim>\<open>QPOasesProblem(nV, nC, hessian_type, eps_regularisation)\<close>.\<close>

definition QPOasesProblem_new ::
  "('p, 'o, 'b, 'c, 'h) qpOASES \<Rightarrow> nat \<Rightarrow> nat \<Rightarrow> 'h \<Rightarrow> real \<Rightarrow>
   ('p, 'o, 'b, 'c) QPOasesProblem" where
  "QPOasesProblem_new q number_of_variables number_of_constraints hessian_type
       eps_regularisation =
     setDefaultOptions q
       \<lparr>m_problem = SQProblem_new q number_of_variables number_of_constraints hessian_type,
        m_bounds = Bounds_new q,
        m_constraints = Constraints_new q,
        m_nWSR = 132,
        m_epsRegularisation = eps_regularisation,
        m_H = setZero00, m_g = [], m_A = setZero00,
        m_lA = [], m_uA = [], m_l = [], m_u = [],
        m_solution = uninitialized q number_of_variables,
        m_dual_solution = uninitialized q number_of_variables,
        m_opt = Options_new q\<rparr>"

subsection \<open>A scripted solver\<close>

text \<open>
  A stand-in for the library on which the functions above can be run: a problem
  object answers each \<^verbatim>\<open>init\<close> and \<^verbatim>\<open>hotstart\<close> with the next return value of its
  script (with \<^verbatim>\<open>SUCCESSFUL_RETURN\<close> once the script is used up), records the calls
  it receives, and lets its solution be read when its last call was successful.
  Options and Hessian types are numbers, active sets are lists of indices, and
  \<open>INFTY\<close> is the library's \<^verbatim>\<open>1.0e20\<close>.
\<close>

record ScriptedSQP =
  sq_nV :: nat
  sq_nC :: nat
  sq_hessianType :: nat
  sq_options :: nat
  sq_script :: "returnValue list"
  sq_solved :: bool
  sq_calls :: "string list"

definition scripted_call ::
  "string \<Rightarrow> ScriptedSQP \<Rightarrow> int \<Rightarrow> returnValue \<times> ScriptedSQP \<times> int" where
  "scripted_call name p nWSR =
     (case sq_script p of
        [] \<Rightarrow> (SUCCESSFUL_RETURN,
               p\<lparr>sq_solved := True, sq_calls := sq_calls p @ [name]\<rparr>, nWSR)
      | v # vs \<Rightarrow> (v, p\<lparr>sq_script := vs, sq_solved := (v = SUCCESSFUL_RETURN),
                        sq_calls := sq_calls p @ [name]\<rparr>, nWSR))"

definition scripted :: "(ScriptedSQP, nat, nat list, nat list, nat) qpOASES" where
  "scripted =
     \<lparr>INFTY = 100000000000000000000,
      SQProblem_new = (\<lambda>nV nC ht.
         \<lparr>sq_nV = nV, sq_nC = nC, sq_hessianType = ht, sq_options = 0,
          sq_script = [], sq_solved = False, sq_calls = []\<rparr>),
      SQProblem_setOptions = (\<lambda>p opt. p\<lparr>sq_options := opt\<rparr>),
      SQProblem_getHessianType = sq_hessianType,
      SQProblem_init = (\<lambda>p H g A lb ub lbA ubA nWSR guess.
         scripted_call (case guess of None \<Rightarrow> ''init'' | Some x \<Rightarrow> ''init with guess'') p nWSR),
      SQProblem_hotstart = (\<lambda>p H g A lb ub lbA ubA nWSR. scripted_call ''hotstart'' p nWSR),
      getNV = sq_nV,
      getNC = sq_nC,
      getPrimalSolution = (\<lambda>p buf.
         if sq_solved p then (SUCCESSFUL_RETURN, replicate (sq_nV p) 0) else (RET_OTHER 1, buf)),
      getDualSolution = (\<lambda>p buf.
         if sq_solved p then replicate (sq_nV p + sq_nC p) 0 else buf),
      getBounds = (\<lambda>p b. b),
      getConstraints = (\<lambda>p c. c),
      uninitialized = (\<lambda>n. replicate n 0),
      Bounds_new = [],
      Constraints_new = [],
      Options_new = 0,
      defaultOptions = (\<lambda>eps. 1)\<rparr>"

text \<open>
  The same library, except that it refuses to hand out a primal solution:
  \<^verbatim>\<open>getPrimalSolution\<close> returns an error and leaves the buffer as it is.
\<close>

definition unreadable :: "(ScriptedSQP, nat, nat list, nat list, nat) qpOASES" where
  "unreadable = scripted\<lparr>getPrimalSolution := (\<lambda>p buf. (RET_OTHER 1, buf))\<rparr>"

section \<open>Tasks and their aggregation\<close>

text \<open>
  Of \<^verbatim>\<open>Aggregated\<close> the sources hold the declaration
  (\<^verbatim>\<open>include/wb_sot/tasks/Aggregated.h\<close>) and the tests
  (\<^verbatim>\<open>tests/tasks/TestAggregated.cpp\<close>); the class \<^verbatim>\<open>Task\<close> and the bodies of
  \<^verbatim>\<open>Aggregated\<close>'s functions are missing.
  Tasks and constraints are shared objects: a \<open>TaskPtr\<close> or a \<open>ConstraintPtr\<close> is the
  identity of one instance, and the tasks live in a store from identities to
  records.
\<close>

type_synonym TaskPtr = nat
type_synonym ConstraintPtr = nat

text \<open>
  Modelled from the spec: the class \<^verbatim>\<open>Task\<close> (Task.h is missing).  A task has an
  immutable id and \<open>x_size\<close>, the matrix \<open>A\<close>, the vector \<open>b\<close>, a weight, the gain
  \<open>lambda\<close> (the effective residual is \<open>lambda \<cdot> b\<close>) and the ordered list of its
  attached constraints.
\<close>

record Task =
  t_task_id :: string
  t_x_size :: nat
  t_A :: matrix
  t_b :: vec
  t_weight :: matrix
  t_lambda :: real
  t_constraints :: "ConstraintPtr list"

text \<open>
  Modelled from the spec: the data of \<^verbatim>\<open>Aggregated\<close> (Aggregated.cpp is missing).
  An aggregated task is a task with the ordered list of its sub-tasks and the two
  partitions of its constraints; \<open>t_constraints\<close> is the combined list that
  \<^verbatim>\<open>getConstraints()\<close> returns.
\<close>

record Aggregated = Task +
  a_tasks :: "TaskPtr list"
  a_ownConstraints :: "ConstraintPtr list"
  a_aggregatedConstraints :: "ConstraintPtr list"

text \<open>
  Modelled from the spec: the derived id, ``concatenation of sub-task ids joined by
  a fixed separator''; the test \<^verbatim>\<open>testConcatenateTaskIds\<close> fixes the separator.
\<close>

fun concatenateTaskIds :: "string list \<Rightarrow> string" where
  "concatenateTaskIds [] = []"
| "concatenateTaskIds [x] = x"
| "concatenateTaskIds (x # y # ys) = x @ ''plus'' @ concatenateTaskIds (y # ys)"

text \<open>
  Modelled from the spec: ``stack \<open>A\<^sub>i\<close> vertically in list order''; an empty list
  gives a matrix without rows, of the aggregate's \<open>x_size\<close> columns.
\<close>

definition vstack :: "nat \<Rightarrow> matrix list \<Rightarrow> matrix" where
  "vstack n Ms = \<lparr>cols = n, coeffs = concat (map coeffs Ms)\<rparr>"

text \<open>Modelled from the spec: ``block-diagonal composition of sub-task weights''.\<close>

fun blockDiagonal :: "matrix list \<Rightarrow> matrix" where
  "blockDiagonal [] = \<lparr>cols = 0, coeffs = []\<rparr>"
| "blockDiagonal (W # Ws) =
     (let R = blockDiagonal Ws in
      \<lparr>cols = cols W + cols R,
       coeffs = map (\<lambda>r. r @ replicate (cols R) 0) (coeffs W) @
                map (\<lambda>r. replicate (cols W) 0 @ r) (coeffs R)\<rparr>)"

text \<open>
  Modelled from the spec: the constraint union of section 4.3, step 3.  The constraints
  \<open>cs\<close> are appended to \<open>acc\<close> in order, ``skipping any constraint whose identity
  already appears''.
\<close>

fun appendUnique :: "ConstraintPtr list \<Rightarrow> ConstraintPtr list \<Rightarrow> ConstraintPtr list" where
  "appendUnique acc [] = acc"
| "appendUnique acc (c # cs) =
     appendUnique (if c \<in> set acc then acc else acc @ [c]) cs"

text \<open>
  Modelled from the spec: the ``ordered list of sub-Task references (shared, not
  owned)'', read in list order from the store.
\<close>

definition subTasks :: "(TaskPtr \<rightharpoonup> Task) \<Rightarrow> TaskPtr list \<Rightarrow> Task list" where
  "subTasks store ps = List.map_filter store ps"

text \<open>
  Modelled from the spec: steps 2 and 3 of the algorithm of section 4.3, the
  recombination ``without re-triggering sub-updates''.  \<open>A\<close> is the stack of the
  sub-tasks' \<open>A\<close>, \<open>b\<close> the concatenation of their \<open>lambda\<^sub>i \<cdot> b\<^sub>i\<close>, the weight is
  block-diagonal, and the constraints are the own constraints followed by each
  sub-task's constraints in sub-task order, without repetition.
\<close>

definition generateAll :: "(TaskPtr \<rightharpoonup> Task) \<Rightarrow> Aggregated \<Rightarrow> Aggregated" where
  "generateAll store a =
     (let ts = subTasks store (a_tasks a);
          merged = foldl appendUnique (a_ownConstraints a) (map t_constraints ts)
      in a\<lparr>t_A := vstack (t_x_size a) (map t_A ts),
           t_b := concat (map (\<lambda>t. map (\<lambda>x. t_lambda t * x) (t_b t)) ts),
           t_weight := blockDiagonal (map t_weight ts),
           t_constraints := merged,
           a_aggregatedConstraints := drop (length (a_ownConstraints a)) merged\<rparr>)"

text \<open>
  Modelled from the spec: construction, which ``fails (rejected construction) if
  sub-tasks do not share \<open>x_size\<close>''.  The tests read \<open>A\<close>, \<open>b\<close>, the id and the
  constraints of a freshly constructed aggregate, so construction recombines.
\<close>

definition Aggregated_new ::
  "(TaskPtr \<rightharpoonup> Task) \<Rightarrow> TaskPtr list \<Rightarrow> nat \<Rightarrow> Aggregated option" where
  "Aggregated_new store tasks x_size =
     (if list_all (\<lambda>p. case store p of None \<Rightarrow> False | Some t \<Rightarrow> t_x_size t = x_size) tasks
      then Some (generateAll store
        \<lparr>t_task_id = concatenateTaskIds (map t_task_id (subTasks store tasks)),
         t_x_size = x_size,
         t_A = vstack x_size [], t_b = [], t_weight = blockDiagonal [],
         t_lambda = 1, t_constraints = [],
         a_tasks = tasks, a_ownConstraints = [], a_aggregatedConstraints = []\<rparr>)
      else None)"

text \<open>
  Modelled from the spec: \<^verbatim>\<open>update(x)\<close>, steps 1 to 3 of section 4.3.  The sub-tasks'
  own \<^verbatim>\<open>update\<close> functions belong to the concrete task types; \<open>upd\<close> stands for them.
  Each sub-task is updated in list order, in the store, and then the aggregate is
  recombined from the updated sub-tasks.
\<close>

definition updateSubTasks ::
  "(vec \<Rightarrow> Task \<Rightarrow> Task) \<Rightarrow> vec \<Rightarrow> TaskPtr list \<Rightarrow> (TaskPtr \<rightharpoonup> Task) \<Rightarrow> (TaskPtr \<rightharpoonup> Task)" where
  "updateSubTasks upd x ps store =
     fold (\<lambda>p st. case st p of None \<Rightarrow> st | Some t \<Rightarrow> st(p \<mapsto> upd x t)) ps store"

text \<open>
  Modelled from the spec: \<^verbatim>\<open>update(x)\<close> as a whole; the result is the store with the
  updated sub-tasks and the recombined aggregate.
\<close>

definition Aggregated_update ::
  "(vec \<Rightarrow> Task \<Rightarrow> Task) \<Rightarrow> vec \<Rightarrow> (TaskPtr \<rightharpoonup> Task) \<Rightarrow> Aggregated \<Rightarrow>
   (TaskPtr \<rightharpoonup> Task) \<times> Aggregated" where
  "Aggregated_update upd x store a =
     (let store' = updateSubTasks upd x (a_tasks a) store
      in (store', generateAll store' a))"

section \<open>Specification functions for checkINFTY\<close>

text \<open>
  \<open>clamp_range f i n xs\<close> applies \<open>f\<close> to the entries of \<open>xs\<close> at the indices from
  \<open>i\<close> up to \<open>n\<close>; \<open>sanitize q s\<close> is the state in which \<open>max (- INFTY)\<close> has been
  applied to every entry of the lower vectors and \<open>min INFTY\<close> to every entry of the
  upper vectors that the loops of \<^verbatim>\<open>checkINFTY\<close> visit.
\<close>

definition clamp_range :: "(real \<Rightarrow> real) \<Rightarrow> nat \<Rightarrow> nat \<Rightarrow> vec \<Rightarrow> vec" where
  "clamp_range f i n xs =
     map (\<lambda>j. if i \<le> j \<and> j < n then f (xs ! j) else xs ! j) [0..<length xs]"

definition sanitize ::
  "('p, 'o, 'b, 'c, 'h) qpOASES \<Rightarrow> ('p, 'o, 'b, 'c) QPOasesProblem \<Rightarrow>
   ('p, 'o, 'b, 'c) QPOasesProblem" where
  "sanitize q s =
     s\<lparr>m_lA := clamp_range (max (- INFTY q)) 0 (length (m_lA s)) (m_lA s),
       m_uA := clamp_range (min (INFTY q)) 0 (length (m_lA s)) (m_uA s),
       m_l := clamp_range (max (- INFTY q)) 0 (length (m_l s)) (m_l s),
       m_u := clamp_range (min (INFTY q)) 0 (length (m_l s)) (m_u s)\<rparr>"

section \<open>Concrete problems\<close>

text \<open>
  A backend for one variable and no constraint over the scripted solver, as the
  constructor leaves it (Hessian type \<open>0\<close>, the default regularisation factor
  \<^verbatim>\<open>2E2\<close>), and the matrices of small problems.
\<close>

definition fresh_backend :: "(ScriptedSQP, nat, nat list, nat list) QPOasesProblem" where
  "fresh_backend = QPOasesProblem_new scripted 1 0 0 200"

definition H1 :: matrix where
  "H1 = \<lparr>cols = 1, coeffs = [[1]]\<rparr>"

definition H2 :: matrix where
  "H2 = \<lparr>cols = 1, coeffs = [[1], [2]]\<rparr>"

definition A0 :: matrix where
  "A0 = \<lparr>cols = 1, coeffs = []\<rparr>"

definition A1 :: matrix where
  "A1 = \<lparr>cols = 1, coeffs = [[1]]\<rparr>"

text \<open>
  The fresh backend after \<^verbatim>\<open>initProblem(H1, [0], A0, [], [], [], [1])\<close>, a call whose
  \<^verbatim>\<open>l\<close> and \<^verbatim>\<open>u\<close> differ in size.
\<close>

definition mismatched_backend :: "(ScriptedSQP, nat, nat list, nat list) QPOasesProblem" where
  "mismatched_backend = fresh_backend\<lparr>m_H := H1, m_g := [0], m_A := A0, m_u := [1]\<rparr>"

text \<open>
  The fresh backend after the successful call
  \<^verbatim>\<open>initProblem(H1, [0], A0, [], [], [-1], [1])\<close>.
\<close>

definition solved_backend :: "(ScriptedSQP, nat, nat list, nat list) QPOasesProblem" where
  "solved_backend =
     fresh_backend\<lparr>m_problem := (m_problem fresh_backend)\<lparr>sq_solved := True, sq_calls := [''init'']\<rparr>,
                   m_H := H1, m_g := [0], m_A := A0, m_l := [-1], m_u := [1]\<rparr>"

text \<open>The solved backend after \<^verbatim>\<open>updateTask(H1, [0, 0])\<close>: its \<^verbatim>\<open>_g\<close> has two rows, its \<^verbatim>\<open>_H\<close> one.\<close>

definition long_g_backend :: "(ScriptedSQP, nat, nat list, nat list) QPOasesProblem" where
  "long_g_backend = solved_backend\<lparr>m_g := [0, 0]\<rparr>"

text \<open>The solved backend after a successful \<^verbatim>\<open>solve()\<close>.\<close>

definition hotstarted_backend :: "(ScriptedSQP, nat, nat list, nat list) QPOasesProblem" where
  "hotstarted_backend =
     solved_backend\<lparr>m_problem := (m_problem solved_backend)
        \<lparr>sq_calls := [''init'', ''hotstart'']\<rparr>\<rparr>"

text \<open>
  The solved backend with a solver that will fail its next call, with one that
  will fail its next two calls, and with bounds beyond \<open>INFTY\<close>.
\<close>

definition warm_backend :: "(ScriptedSQP, nat, nat list, nat list) QPOasesProblem" where
  "warm_backend =
     solved_backend\<lparr>m_problem := (m_problem solved_backend)\<lparr>sq_script := [RET_OTHER 5]\<rparr>\<rparr>"

definition failing_backend :: "(ScriptedSQP, nat, nat list, nat list) QPOasesProblem" where
  "failing_backend =
     solved_backend\<lparr>m_problem := (m_problem solved_backend)
        \<lparr>sq_script := [RET_OTHER 5, RET_INIT_FAILED_INFEASIBILITY]\<rparr>\<rparr>"


definition crossed_backend :: "(ScriptedSQP, nat, nat list, nat list) QPOasesProblem" where
  "crossed_backend =
     solved_backend\<lparr>m_l := [200000000000000000000], m_u := [300000000000000000000]\<rparr>"

text \<open>
  The fresh backend after the failed call
  \<^verbatim>\<open>initProblem(H1, [0], A0, [], [], [], [3e20])\<close>: an upper bound without a lower
  bound beside it.
\<close>

definition unmatched_backend :: "(ScriptedSQP, nat, nat list, nat list) QPOasesProblem" where
  "unmatched_backend =
     fresh_backend\<lparr>m_H := H1, m_g := [0], m_A := A0, m_u := [300000000000000000000]\<rparr>"

text \<open>
  Two tasks over two variables in a store.  They share the constraint \<open>0\<close>; the
  first also has the constraint \<open>1\<close>, the second the constraint \<open>2\<close>.  \<open>shift_b\<close> is
  an update function for them: it adds the state to the residual.
\<close>

definition posturalOne :: Task where
  "posturalOne =
     \<lparr>t_task_id = ''Postural1'', t_x_size = 2,
      t_A = \<lparr>cols = 2, coeffs = [[1, 0], [0, 1]]\<rparr>, t_b = [1, 2],
      t_weight = \<lparr>cols = 2, coeffs = [[1, 0], [0, 1]]\<rparr>, t_lambda = 1 / 2,
      t_constraints = [0, 1]\<rparr>"

definition posturalTwo :: Task where
  "posturalTwo =
     \<lparr>t_task_id = ''Postural2'', t_x_size = 2,
      t_A = \<lparr>cols = 2, coeffs = [[2, 0], [0, 2]]\<rparr>, t_b = [3, 4],
      t_weight = \<lparr>cols = 2, coeffs = [[1, 0], [0, 1]]\<rparr>, t_lambda = 1,
      t_constraints = [2, 0]\<rparr>"

definition two_tasks :: "TaskPtr \<rightharpoonup> Task" where
  "two_tasks = [10 \<mapsto> posturalOne, 20 \<mapsto> posturalTwo]"

definition shift_b :: "vec \<Rightarrow> Task \<Rightarrow> Task" where
  "shift_b x t = t\<lparr>t_b := map2 (+) (t_b t) x\<rparr>"


section \<open>The loops of checkINFTY\<close>

lemma length_clamp_range [simp]: "length (clamp_range f i n xs) = length xs"
  by (simp add: clamp_range_def)

lemma clamp_range_empty: "n \<le> i \<Longrightarrow> clamp_range f i n xs = xs"
  by (auto simp: clamp_range_def intro!: nth_equalityI)

lemma clamp_range_step:
  "i < n \<Longrightarrow> i < length xs \<Longrightarrow>
   clamp_range f (Suc i) n (xs[i := f (xs ! i)]) = clamp_range f i n xs"
  by (auto simp: clamp_range_def nth_list_update intro!: nth_equalityI)

lemma clamp_range_all: "length xs \<le> n \<Longrightarrow> clamp_range f 0 n xs = map f xs"
  by (auto simp: clamp_range_def intro!: nth_equalityI)

lemma clamp_range_take_drop:
  "clamp_range f 0 n xs = map f (take n xs) @ drop n xs"
  by (auto simp: clamp_range_def nth_append intro!: nth_equalityI)

lemma clamp_range_idem:
  "(\<And>x. f (f x) = f x) \<Longrightarrow> clamp_range f i n (clamp_range f i n xs) = clamp_range f i n xs"
  by (auto simp: clamp_range_def intro!: nth_equalityI)

lemma lower_update:
  fixes x :: vec
  shows "(if x ! i < - c then x[i := - c] else x) = x[i := max (- c) (x ! i)]"
  by (cases "x ! i < - c") (simp_all add: max_def not_less)

lemma upper_update:
  fixes x :: vec
  shows "(if x ! i > c then x[i := c] else x) = x[i := min c (x ! i)]"
  by (cases "x ! i > c") (simp_all add: min_def not_less)

lemma checkINFTY_loop_eq:
  "n \<le> length lo \<Longrightarrow> n \<le> length up \<Longrightarrow>
   checkINFTY_loop c i n lo up =
     Some (clamp_range (max (- c)) i n lo, clamp_range (min c) i n up)"
proof (induction c i n lo up rule: checkINFTY_loop.induct)
  case (1 c i n lo up)
  show ?case
  proof (cases "i < n")
    case True
    with "1.prems" have il: "i < length lo" and iu: "i < length up" by auto
    have "checkINFTY_loop c i n lo up =
          checkINFTY_loop c (Suc i) n (lo[i := max (- c) (lo ! i)]) (up[i := min c (up ! i)])"
      using True il iu by (subst checkINFTY_loop.simps) (simp add: lower_update upper_update)
    also have "\<dots> = Some (clamp_range (max (- c)) (Suc i) n (lo[i := max (- c) (lo ! i)]),
                         clamp_range (min c) (Suc i) n (up[i := min c (up ! i)]))"
      using "1.IH" [OF True] il iu "1.prems" by (simp add: lower_update upper_update)
    finally show ?thesis
      using True il iu by (simp add: clamp_range_step)
  next
    case False
    then show ?thesis
      by (subst checkINFTY_loop.simps) (simp add: clamp_range_empty)
  qed
qed

lemma checkINFTY_loop_None:
  "i < n \<Longrightarrow> length lo < n \<or> length up < n \<Longrightarrow> i \<le> length lo \<Longrightarrow> i \<le> length up \<Longrightarrow>
   checkINFTY_loop c i n lo up = None"
proof (induction c i n lo up rule: checkINFTY_loop.induct)
  case (1 c i n lo up)
  show ?case
  proof (cases "i < length lo \<and> i < length up")
    case True
    then have "Suc i < n" using "1.prems" by auto
    then show ?thesis
      using "1.IH" True "1.prems"
      by (subst checkINFTY_loop.simps) auto
  next
    case False
    then show ?thesis using "1.prems" by (subst checkINFTY_loop.simps) auto
  qed
qed

lemma checkINFTY_sanitize:
  "length (m_lA s) \<le> length (m_uA s) \<Longrightarrow> length (m_l s) \<le> length (m_u s) \<Longrightarrow>
   checkINFTY q s = Some (sanitize q s)"
  by (simp add: checkINFTY_def sanitize_def checkINFTY_loop_eq)

lemma checkINFTY_None:
  "length (m_uA s) < length (m_lA s) \<or> length (m_u s) < length (m_l s) \<Longrightarrow>
   checkINFTY q s = None"
proof -
  assume a: "length (m_uA s) < length (m_lA s) \<or> length (m_u s) < length (m_l s)"
  show ?thesis
  proof (cases "length (m_uA s) < length (m_lA s)")
    case True
    then have "checkINFTY_loop (INFTY q) 0 (length (m_lA s)) (m_lA s) (m_uA s) = None"
      by (intro checkINFTY_loop_None) auto
    then show ?thesis by (simp add: checkINFTY_def)
  next
    case False
    with a have "length (m_u s) < length (m_l s)" by simp
    then have "checkINFTY_loop (INFTY q) 0 (length (m_l s)) (m_l s) (m_u s) = None"
      by (intro checkINFTY_loop_None) auto
    then show ?thesis by (simp add: checkINFTY_def split: option.splits)
  qed
qed

lemma checkINFTY_Some_iff:
  "checkINFTY q s = Some s1 \<longleftrightarrow>
     length (m_lA s) \<le> length (m_uA s) \<and> length (m_l s) \<le> length (m_u s) \<and> s1 = sanitize q s"
proof (cases "length (m_lA s) \<le> length (m_uA s) \<and> length (m_l s) \<le> length (m_u s)")
  case True
  then show ?thesis by (auto simp: checkINFTY_sanitize)
next
  case False
  then have "checkINFTY q s = None" by (intro checkINFTY_None) auto
  with False show ?thesis by auto
qed

lemma sanitize_fields [simp]:
  "m_problem (sanitize q s) = m_problem s"
  "m_bounds (sanitize q s) = m_bounds s"
  "m_constraints (sanitize q s) = m_constraints s"
  "m_nWSR (sanitize q s) = m_nWSR s"
  "m_epsRegularisation (sanitize q s) = m_epsRegularisation s"
  "m_H (sanitize q s) = m_H s"
  "m_g (sanitize q s) = m_g s"
  "m_A (sanitize q s) = m_A s"
  "m_solution (sanitize q s) = m_solution s"
  "m_dual_solution (sanitize q s) = m_dual_solution s"
  "m_opt (sanitize q s) = m_opt s"
  "m_lA (sanitize q s) = map (max (- INFTY q)) (m_lA s)"
  "m_l (sanitize q s) = map (max (- INFTY q)) (m_l s)"
  "m_uA (sanitize q s) = map (min (INFTY q)) (take (length (m_lA s)) (m_uA s)) @ drop (length (m_lA s)) (m_uA s)"
  "m_u (sanitize q s) = map (min (INFTY q)) (take (length (m_l s)) (m_u s)) @ drop (length (m_l s)) (m_u s)"
  by (simp_all add: sanitize_def clamp_range_all clamp_range_take_drop)

lemma sanitize_idem: "sanitize q (sanitize q s) = sanitize q s"
  by (simp add: sanitize_def clamp_range_idem)

lemma sanitize_equal_lengths:
  assumes "length (m_lA s) = length (m_uA s)" and "length (m_l s) = length (m_u s)"
  shows "sanitize q s =
     s\<lparr>m_lA := map (max (- INFTY q)) (m_lA s), m_uA := map (min (INFTY q)) (m_uA s),
       m_l := map (max (- INFTY q)) (m_l s), m_u := map (min (INFTY q)) (m_u s)\<rparr>"
  using assms by (simp add: sanitize_def clamp_range_all)

lemma sanitized_lengths:
  assumes "checkINFTY q s = Some s1"
  shows "length (m_lA s1) \<le> length (m_uA s1)" "length (m_l s1) \<le> length (m_u s1)"
  using assms by (auto simp: checkINFTY_Some_iff)

section \<open>Frames of the backend's functions\<close>

lemma readSolution_frame [simp]:
  "m_problem (snd (readSolution q s)) = m_problem s"
  "m_nWSR (snd (readSolution q s)) = m_nWSR s"
  "m_epsRegularisation (snd (readSolution q s)) = m_epsRegularisation s"
  "m_H (snd (readSolution q s)) = m_H s"
  "m_g (snd (readSolution q s)) = m_g s"
  "m_A (snd (readSolution q s)) = m_A s"
  "m_lA (snd (readSolution q s)) = m_lA s"
  "m_uA (snd (readSolution q s)) = m_uA s"
  "m_l (snd (readSolution q s)) = m_l s"
  "m_u (snd (readSolution q s)) = m_u s"
  "m_opt (snd (readSolution q s)) = m_opt s"
  by (simp_all add: readSolution_def Let_def split: prod.splits)

lemma readSolution_success:
  "fst (readSolution q s) =
     fst (getPrimalSolution q (m_problem s)
            (if length (m_solution s) \<noteq> getNV q (m_problem s)
             then uninitialized q (getNV q (m_problem s)) else m_solution s))"
  by (simp add: readSolution_def Let_def split: prod.splits)

lemma initProblem_frame:
  assumes "initProblem q s H g A lA uA l u = Some (r, s')"
  shows "length lA \<le> length uA \<and> length l \<le> length u \<and>
         m_H s' = H \<and> m_g s' = g \<and> m_A s' = A \<and>
         m_lA s' = map (max (- INFTY q)) lA \<and>
         m_uA s' = map (min (INFTY q)) (take (length lA) uA) @ drop (length lA) uA \<and>
         m_l s' = map (max (- INFTY q)) l \<and>
         m_u s' = map (min (INFTY q)) (take (length l) u) @ drop (length l) u \<and>
         m_nWSR s' = m_nWSR s \<and> m_epsRegularisation s' = m_epsRegularisation s \<and>
         m_opt s' = m_opt s"
proof -
  let ?s0 = "s\<lparr>m_H := H, m_g := g, m_A := A, m_lA := lA, m_uA := uA, m_l := l, m_u := u\<rparr>"
  from assms obtain s1 where c: "checkINFTY q ?s0 = Some s1"
    by (auto simp: initProblem_def split: option.splits)
  then have len: "length lA \<le> length uA" "length l \<le> length u" and s1: "s1 = sanitize q ?s0"
    by (simp_all add: checkINFTY_Some_iff)
  obtain v p n where i: "SQProblem_init q (m_problem s1) (m_H s1) (m_g s1) (m_A s1)
      (m_l s1) (m_u s1) (m_lA s1) (m_uA s1) (m_nWSR s1) None = (v, p, n)"
    by (cases "SQProblem_init q (m_problem s1) (m_H s1) (m_g s1) (m_A s1)
      (m_l s1) (m_u s1) (m_lA s1) (m_uA s1) (m_nWSR s1) None") auto
  from assms c i have "s' = s1 \<or> s' = s1\<lparr>m_problem := p\<rparr> \<or>
      s' = snd (readSolution q (s1\<lparr>m_problem := p\<rparr>))"
    by (auto simp: initProblem_def Let_def split: if_splits prod.splits)
  then show ?thesis
    using len by (auto simp: s1)
qed

lemma initProblem_defined:
  assumes "length lA \<le> length uA" and "length l \<le> length u"
  shows "\<exists>r s'. initProblem q s H g A lA uA l u = Some (r, s')"
proof -
  let ?s0 = "s\<lparr>m_H := H, m_g := g, m_A := A, m_lA := lA, m_uA := uA, m_l := l, m_u := u\<rparr>"
  have c: "checkINFTY q ?s0 = Some (sanitize q ?s0)"
    using assms by (intro checkINFTY_sanitize) simp_all
  have "initProblem q s H g A lA uA l u \<noteq> None"
    unfolding initProblem_def c by (auto simp: Let_def split: prod.splits)
  then show ?thesis by auto
qed

lemma rebuildProblem_eq:
  "rebuildProblem q s =
     s\<lparr>m_problem := SQProblem_setOptions q
         (SQProblem_new q (cols (m_H s)) (rows (m_A s)) (SQProblem_getHessianType q (m_problem s)))
         (m_opt s)\<rparr>"
  by (simp add: rebuildProblem_def Let_def)

lemma updateBounds_True:
  "updateBounds s l u = (True, s1) \<Longrightarrow>
   s1 = s\<lparr>m_l := l, m_u := u\<rparr> \<and> length l = length u"
  by (auto simp: updateBounds_def split: if_splits)

lemma updateBounds_False: "updateBounds s l u = (False, s1) \<Longrightarrow> s1 = s"
  by (auto simp: updateBounds_def split: if_splits)

lemma updateConstraints_defined:
  assumes "length (m_l s) \<le> length (m_u s)"
  shows "\<exists>r s'. updateConstraints q s A lA uA = Some (r, s')"
  using assms initProblem_defined [of lA uA "m_l s" "m_u s" q _ "m_H s" "m_g s" A]
  by (auto simp: updateConstraints_def rebuildProblem_eq)

lemma updateConstraints_True:
  assumes "updateConstraints q s A lA uA = Some (True, s')"
    and "length (m_l s) = length (m_u s)"
  shows "length (m_lA s') = length (m_uA s') \<and> length (m_l s') = length (m_u s')"
proof (cases "rows A = rows (m_A s)")
  case True
  with assms show ?thesis
    by (auto simp: updateConstraints_def split: if_splits)
next
  case False
  with assms have v: "length lA = length uA"
    and i: "initProblem q (rebuildProblem q (s\<lparr>m_A := A, m_lA := lA, m_uA := uA\<rparr>))
          (m_H s) (m_g s) A lA uA (m_l s) (m_u s) = Some (True, s')"
    by (auto simp: updateConstraints_def rebuildProblem_eq split: if_splits)
  from initProblem_frame [OF i] v assms(2) show ?thesis by simp
qed

subsection \<open>The paths of solve\<close>

lemma solve_finish_readable:
  assumes "fst (readSolution q s) = SUCCESSFUL_RETURN"
  shows "solve_finish q s = Some (True, snd (readSolution q s))"
  using assms by (cases "readSolution q s") (simp add: solve_finish_def)

lemma solve_finish_unreadable:
  assumes "fst (readSolution q s) \<noteq> SUCCESSFUL_RETURN"
  shows "solve_finish q s =
           initProblem q (snd (readSolution q s))
             (m_H s) (m_g s) (m_A s) (m_lA s) (m_uA s) (m_l s) (m_u s)"
  using assms readSolution_frame [of q s]
  by (cases "readSolution q s") (simp add: solve_finish_def)

lemma solve_hot:
  assumes "checkINFTY q s = Some s1"
    and "SQProblem_hotstart q (m_problem s1) (m_H s1) (m_g s1) (m_A s1)
           (m_l s1) (m_u s1) (m_lA s1) (m_uA s1) (m_nWSR s) = (SUCCESSFUL_RETURN, p1, n1)"
  shows "solve q s = solve_finish q (s1\<lparr>m_problem := p1\<rparr>)"
  using assms by (simp add: solve_def Let_def)

lemma solve_warm:
  assumes "checkINFTY q s = Some s1"
    and "SQProblem_hotstart q (m_problem s1) (m_H s1) (m_g s1) (m_A s1)
           (m_l s1) (m_u s1) (m_lA s1) (m_uA s1) (m_nWSR s) = (v1, p1, n1)"
    and "v1 \<noteq> SUCCESSFUL_RETURN"
    and "SQProblem_init q p1 (m_H s1) (m_g s1) (m_A s1)
           (m_l s1) (m_u s1) (m_lA s1) (m_uA s1) n1
           (Some (m_solution s1, m_dual_solution s1, m_bounds s1, m_constraints s1))
         = (SUCCESSFUL_RETURN, p2, n2)"
  shows "solve q s = solve_finish q (s1\<lparr>m_problem := p2\<rparr>)"
  using assms by (simp add: solve_def Let_def)

lemma solve_cold:
  assumes "checkINFTY q s = Some s1"
    and "SQProblem_hotstart q (m_problem s1) (m_H s1) (m_g s1) (m_A s1)
           (m_l s1) (m_u s1) (m_lA s1) (m_uA s1) (m_nWSR s) = (v1, p1, n1)"
    and "v1 \<noteq> SUCCESSFUL_RETURN"
    and "SQProblem_init q p1 (m_H s1) (m_g s1) (m_A s1)
           (m_l s1) (m_u s1) (m_lA s1) (m_uA s1) n1
           (Some (m_solution s1, m_dual_solution s1, m_bounds s1, m_constraints s1))
         = (v2, p2, n2)"
    and "v2 \<noteq> SUCCESSFUL_RETURN"
  shows "solve q s = initProblem q (s1\<lparr>m_problem := p2\<rparr>)
           (m_H s1) (m_g s1) (m_A s1) (m_lA s1) (m_uA s1) (m_l s1) (m_u s1)"
  using assms by (simp add: solve_def Let_def)

lemma solve_sanitized:
  assumes "checkINFTY q s = Some s1"
  shows "solve q s = solve q s1"
proof -
  from assms have s1: "s1 = sanitize q s"
    and len: "length (m_lA s) \<le> length (m_uA s)" "length (m_l s) \<le> length (m_u s)"
    by (simp_all add: checkINFTY_Some_iff)
  have "checkINFTY q s1 = Some (sanitize q s1)"
    using len unfolding s1 by (intro checkINFTY_sanitize) (simp_all add: sanitize_def)
  then have "checkINFTY q s1 = Some s1"
    by (simp add: s1 sanitize_idem)
  with assms show ?thesis
    by (simp add: solve_def s1)
qed

lemma initProblem_sanitized:
  assumes "length lA = length uA" and "length l = length u"
  shows "initProblem q t H g A lA uA l u =
         initProblem q t H g A (map (max (- INFTY q)) lA) (map (min (INFTY q)) uA)
           (map (max (- INFTY q)) l) (map (min (INFTY q)) u)"
proof -
  let ?t0 = "t\<lparr>m_H := H, m_g := g, m_A := A, m_lA := lA, m_uA := uA, m_l := l, m_u := u\<rparr>"
  let ?t1 = "t\<lparr>m_H := H, m_g := g, m_A := A, m_lA := map (max (- INFTY q)) lA,
      m_uA := map (min (INFTY q)) uA, m_l := map (max (- INFTY q)) l,
      m_u := map (min (INFTY q)) u\<rparr>"
  have e: "sanitize q ?t0 = ?t1"
    using assms by (simp add: sanitize_equal_lengths)
  have c0: "checkINFTY q ?t0 = Some ?t1"
    using assms e by (simp add: checkINFTY_sanitize)
  have "sanitize q ?t1 = ?t1"
    using sanitize_idem [of q ?t0] by (simp only: e)
  then have c1: "checkINFTY q ?t1 = Some ?t1"
    using assms checkINFTY_sanitize [of ?t1 q] by simp
  show ?thesis
    unfolding initProblem_def c0 c1 ..
qed

subsection \<open>What solve keeps\<close>








section \<open>Running the scripted solver\<close>

lemma scripted_sel:
  "SQProblem_new scripted = (\<lambda>nV nC ht.
         \<lparr>sq_nV = nV, sq_nC = nC, sq_hessianType = ht, sq_options = 0,
          sq_script = [], sq_solved = False, sq_calls = []\<rparr>)"
  "SQProblem_setOptions scripted = (\<lambda>p opt. p\<lparr>sq_options := opt\<rparr>)"
  "SQProblem_getHessianType scripted = sq_hessianType"
  "SQProblem_init scripted = (\<lambda>p H g A lb ub lbA ubA nWSR guess.
         scripted_call (case guess of None \<Rightarrow> ''init'' | Some x \<Rightarrow> ''init with guess'') p nWSR)"
  "SQProblem_hotstart scripted = (\<lambda>p H g A lb ub lbA ubA nWSR. scripted_call ''hotstart'' p nWSR)"
  "getNV scripted = sq_nV"
  "getNC scripted = sq_nC"
  "getPrimalSolution scripted = (\<lambda>p buf.
         if sq_solved p then (SUCCESSFUL_RETURN, replicate (sq_nV p) 0) else (RET_OTHER 1, buf))"
  "getDualSolution scripted = (\<lambda>p buf.
         if sq_solved p then replicate (sq_nV p + sq_nC p) 0 else buf)"
  "getBounds scripted = (\<lambda>p b. b)"
  "getConstraints scripted = (\<lambda>p c. c)"
  "uninitialized scripted = (\<lambda>n. replicate n 0)"
  "Bounds_new scripted = []"
  "Constraints_new scripted = []"
  "Options_new scripted = 0"
  "defaultOptions scripted = (\<lambda>eps. 1)"
  by (simp_all add: scripted_def)

lemma unreadable_sel:
  "INFTY unreadable = 100000000000000000000"
  "SQProblem_new unreadable = (\<lambda>nV nC ht.
         \<lparr>sq_nV = nV, sq_nC = nC, sq_hessianType = ht, sq_options = 0,
          sq_script = [], sq_solved = False, sq_calls = []\<rparr>)"
  "SQProblem_setOptions unreadable = (\<lambda>p opt. p\<lparr>sq_options := opt\<rparr>)"
  "SQProblem_getHessianType unreadable = sq_hessianType"
  "SQProblem_init unreadable = (\<lambda>p H g A lb ub lbA ubA nWSR guess.
         scripted_call (case guess of None \<Rightarrow> ''init'' | Some x \<Rightarrow> ''init with guess'') p nWSR)"
  "SQProblem_hotstart unreadable = (\<lambda>p H g A lb ub lbA ubA nWSR. scripted_call ''hotstart'' p nWSR)"
  "getNV unreadable = sq_nV"
  "getNC unreadable = sq_nC"
  "getPrimalSolution unreadable = (\<lambda>p buf. (RET_OTHER 1, buf))"
  "getDualSolution unreadable = (\<lambda>p buf.
         if sq_solved p then replicate (sq_nV p + sq_nC p) 0 else buf)"
  "getBounds unreadable = (\<lambda>p b. b)"
  "getConstraints unreadable = (\<lambda>p c. c)"
  "uninitialized unreadable = (\<lambda>n. replicate n 0)"
  by (simp_all add: unreadable_def scripted_def)

lemma INFTY_scripted [simp]: "INFTY scripted = 100000000000000000000"
  by (simp add: scripted_def)

lemma fresh_backend_eq:
  "fresh_backend =
     \<lparr>m_problem = \<lparr>sq_nV = 1, sq_nC = 0, sq_hessianType = 0, sq_options = 1,
                    sq_script = [], sq_solved = False, sq_calls = []\<rparr>,
      m_bounds = [], m_constraints = [], m_nWSR = 132, m_epsRegularisation = 200,
      m_H = setZero00, m_g = [], m_A = setZero00, m_lA = [], m_uA = [], m_l = [], m_u = [],
      m_solution = [0], m_dual_solution = [0], m_opt = 1\<rparr>"
  by (simp add: fresh_backend_def QPOasesProblem_new_def setDefaultOptions_def scripted_def)

lemma solved_backend_reached:
  "initProblem scripted fresh_backend H1 [0] A0 [] [] [-1] [1] = Some (True, solved_backend)"
  by (simp add: initProblem_def checkINFTY_sanitize fresh_backend_eq solved_backend_def
      sanitize_def clamp_range_def rows_def A0_def readSolution_def Let_def
      scripted_def scripted_call_def)

section \<open>The constraint union\<close>

lemma appendUnique_distinct:
  "distinct acc \<Longrightarrow> distinct (appendUnique acc cs)"
  by (induction cs arbitrary: acc) auto

lemma appendUnique_set: "set (appendUnique acc cs) = set acc \<union> set cs"
  by (induction cs arbitrary: acc) auto

lemma count_list_distinct:
  "distinct xs \<Longrightarrow> count_list xs x = (if x \<in> set xs then 1 else 0)"
  by (induction xs) auto

lemma three_distinct:
  assumes "distinct xs" and "set xs = {C, D1, D2}" and "C \<noteq> D1" "C \<noteq> D2" "D1 \<noteq> D2"
  shows "length xs = 3 \<and> count_list xs C = 1"
proof -
  from assms have "card (set xs) = 3" by simp
  with assms(1) have "length xs = 3" by (simp add: distinct_card)
  moreover have "count_list xs C = 1"
    using assms(1,2) by (simp add: count_list_distinct)
  ultimately show ?thesis by simp
qed

lemma generateAll_two:
  assumes "store p1 = Some t1" and "store p2 = Some t2" and "a_tasks a = [p1, p2]"
  shows "t_A (generateAll store a) = vstack (t_x_size a) [t_A t1, t_A t2]"
    and "t_b (generateAll store a) =
           map (\<lambda>x. t_lambda t1 * x) (t_b t1) @ map (\<lambda>x. t_lambda t2 * x) (t_b t2)"
    and "t_constraints (generateAll store a) =
           appendUnique (appendUnique (a_ownConstraints a) (t_constraints t1)) (t_constraints t2)"
  using assms by (simp_all add: generateAll_def subTasks_def List.map_filter_def Let_def)

lemma Aggregated_new_two:
  assumes "store p1 = Some t1" and "store p2 = Some t2"
    and "t_x_size t1 = n" and "t_x_size t2 = n"
  shows "\<exists>a. Aggregated_new store [p1, p2] n = Some a \<and> a_tasks a = [p1, p2] \<and>
           t_x_size a = n \<and> a_ownConstraints a = [] \<and>
           t_constraints a = appendUnique (appendUnique [] (t_constraints t1)) (t_constraints t2)"
  using assms
  by (simp add: Aggregated_new_def generateAll_def subTasks_def List.map_filter_def Let_def)

lemma updateSubTasks_two:
  assumes "store p1 = Some t1" and "store p2 = Some t2"
  shows "\<exists>t1' t2'. updateSubTasks upd x [p1, p2] store p1 = Some t1' \<and>
           updateSubTasks upd x [p1, p2] store p2 = Some t2'"
  using assms by (simp add: updateSubTasks_def)

section \<open>The claims about the backend\<close>

subsection \<open>initProblem\<close>

text \<open>
  Claim C1, as the code has it.  When \<^verbatim>\<open>initProblem(H,g,A,lA,uA,l,u)\<close> fails its size
  validation (and \<^verbatim>\<open>lA\<close> is not longer than \<^verbatim>\<open>uA\<close>, nor \<^verbatim>\<open>l\<close> longer than \<^verbatim>\<open>u\<close>, so
  that \<^verbatim>\<open>checkINFTY\<close> stays inside the vectors), it returns failure; the solver
  object, the primal and dual solution, the active sets, the options and \<^verbatim>\<open>nWSR\<close> are
  left unchanged, but the stored \<^verbatim>\<open>H\<close>, \<^verbatim>\<open>g\<close>, \<^verbatim>\<open>A\<close>, \<^verbatim>\<open>lA\<close>, \<^verbatim>\<open>uA\<close>, \<^verbatim>\<open>l\<close>, \<^verbatim>\<open>u\<close> have been
  overwritten by the arguments as \<^verbatim>\<open>checkINFTY\<close> sanitises them.
\<close>

theorem initProblem_validation_failure:
  assumes "length l \<noteq> length u \<or> length lA \<noteq> rows A \<or> length lA \<noteq> length uA"
    and "length lA \<le> length uA" and "length l \<le> length u"
  shows "initProblem q s H g A lA uA l u =
           Some (False,
             s\<lparr>m_H := H, m_g := g, m_A := A,
               m_lA := map (max (- INFTY q)) lA,
               m_uA := map (min (INFTY q)) (take (length lA) uA) @ drop (length lA) uA,
               m_l := map (max (- INFTY q)) l,
               m_u := map (min (INFTY q)) (take (length l) u) @ drop (length l) u\<rparr>)"
proof -
  let ?s0 = "s\<lparr>m_H := H, m_g := g, m_A := A, m_lA := lA, m_uA := uA, m_l := l, m_u := u\<rparr>"
  have c: "checkINFTY q ?s0 = Some (sanitize q ?s0)"
    using assms(2,3) by (intro checkINFTY_sanitize) simp_all
  have e: "sanitize q ?s0 =
      s\<lparr>m_H := H, m_g := g, m_A := A,
               m_lA := map (max (- INFTY q)) lA,
               m_uA := map (min (INFTY q)) (take (length lA) uA) @ drop (length lA) uA,
               m_l := map (max (- INFTY q)) l,
               m_u := map (min (INFTY q)) (take (length l) u) @ drop (length l) u\<rparr>"
    by (simp add: sanitize_def clamp_range_all clamp_range_take_drop)
  show ?thesis
    using assms(1) unfolding initProblem_def c e by auto
qed

text \<open>
  A run of the theorem of C1: on the solved backend, a call with an empty \<^verbatim>\<open>l\<close> and a
  \<^verbatim>\<open>u\<close> of size one fails, and the stored problem is the new one.
\<close>

theorem initProblem_validation_failure_witness:
  "initProblem scripted solved_backend H2 [0, 0] A0 [] [] [] [200000000000000000000] =
     Some (False, solved_backend\<lparr>m_H := H2, m_g := [0, 0], m_l := [], m_u := [200000000000000000000]\<rparr>)"
  using initProblem_validation_failure
    [of "[]" "[200000000000000000000]" "[]" A0 "[]" scripted solved_backend H2 "[0, 0]"]
  by (simp add: solved_backend_def fresh_backend_eq)

text \<open>
  Claim C1 as it is stated fails.  A backend that holds the solved problem
  \<^verbatim>\<open>(H1, [0], A0, [], [], [-1], [1])\<close> is given \<^verbatim>\<open>(H2, [0,0], A0, [], [], [], [1])\<close>,
  whose \<^verbatim>\<open>l\<close> and \<^verbatim>\<open>u\<close> differ in size: the call returns failure, and the stored
  \<^verbatim>\<open>H\<close>, \<^verbatim>\<open>g\<close>, \<^verbatim>\<open>l\<close> are those of the rejected problem.
\<close>

theorem initProblem_overwrites_before_validating:
  "initProblem scripted fresh_backend H1 [0] A0 [] [] [-1] [1] = Some (True, solved_backend) \<and>
   initProblem scripted solved_backend H2 [0, 0] A0 [] [] [] [1] =
     Some (False, solved_backend\<lparr>m_H := H2, m_g := [0, 0], m_l := [], m_u := [1]\<rparr>) \<and>
   m_H solved_backend = H1 \<and> m_g solved_backend = [0] \<and> m_l solved_backend = [-1] \<and>
   H1 \<noteq> H2"
  by (simp add: solved_backend_reached)
     (simp add: initProblem_def checkINFTY_sanitize sanitize_def clamp_range_def
        solved_backend_def fresh_backend_eq H1_def H2_def)

subsection \<open>solve\<close>

text \<open>
  Claim C2, as the code has it.  Let \<open>s1\<close> be the state after \<^verbatim>\<open>checkINFTY\<close>, let the
  hotstart on it return \<open>v1\<close> and leave the solver object as \<open>p1\<close>, and let the
  \<^verbatim>\<open>init\<close> on \<open>p1\<close> with the last primal solution, dual solution and active sets as
  initial guess return \<open>v2\<close> and leave \<open>p2\<close>.  When the hotstart succeeds, \<^verbatim>\<open>solve()\<close>
  reads the solution of \<open>p1\<close> and returns success if \<^verbatim>\<open>getPrimalSolution\<close> does;
  if it does not, \<^verbatim>\<open>solve()\<close> returns what the cold \<^verbatim>\<open>initProblem\<close> on the stored
  \<^verbatim>\<open>H, g, A, lA, uA, l, u\<close> returns, without a warm start.  When the hotstart fails
  and the warm-started \<^verbatim>\<open>init\<close> succeeds, the same holds with \<open>p2\<close>.  When both fail,
  \<^verbatim>\<open>solve()\<close> returns what the cold \<^verbatim>\<open>initProblem\<close> returns.  \<^verbatim>\<open>solve()\<close> returns in
  every case, and it fails only when the cold \<^verbatim>\<open>initProblem\<close> has been run, on one
  of these three paths, and has failed.
\<close>

theorem solve_three_tier:
  assumes "checkINFTY q s = Some s1"
    and "SQProblem_hotstart q (m_problem s1) (m_H s1) (m_g s1) (m_A s1)
           (m_l s1) (m_u s1) (m_lA s1) (m_uA s1) (m_nWSR s) = (v1, p1, n1)"
    and "SQProblem_init q p1 (m_H s1) (m_g s1) (m_A s1)
           (m_l s1) (m_u s1) (m_lA s1) (m_uA s1) n1
           (Some (m_solution s1, m_dual_solution s1, m_bounds s1, m_constraints s1))
         = (v2, p2, n2)"
  shows "(v1 = SUCCESSFUL_RETURN \<and>
          fst (readSolution q (s1\<lparr>m_problem := p1\<rparr>)) = SUCCESSFUL_RETURN \<longrightarrow>
            solve q s = Some (True, snd (readSolution q (s1\<lparr>m_problem := p1\<rparr>)))) \<and>
         (v1 = SUCCESSFUL_RETURN \<and>
          fst (readSolution q (s1\<lparr>m_problem := p1\<rparr>)) \<noteq> SUCCESSFUL_RETURN \<longrightarrow>
            solve q s = initProblem q (snd (readSolution q (s1\<lparr>m_problem := p1\<rparr>)))
              (m_H s1) (m_g s1) (m_A s1) (m_lA s1) (m_uA s1) (m_l s1) (m_u s1)) \<and>
         (v1 \<noteq> SUCCESSFUL_RETURN \<and> v2 = SUCCESSFUL_RETURN \<and>
          fst (readSolution q (s1\<lparr>m_problem := p2\<rparr>)) = SUCCESSFUL_RETURN \<longrightarrow>
            solve q s = Some (True, snd (readSolution q (s1\<lparr>m_problem := p2\<rparr>)))) \<and>
         (v1 \<noteq> SUCCESSFUL_RETURN \<and> v2 = SUCCESSFUL_RETURN \<and>
          fst (readSolution q (s1\<lparr>m_problem := p2\<rparr>)) \<noteq> SUCCESSFUL_RETURN \<longrightarrow>
            solve q s = initProblem q (snd (readSolution q (s1\<lparr>m_problem := p2\<rparr>)))
              (m_H s1) (m_g s1) (m_A s1) (m_lA s1) (m_uA s1) (m_l s1) (m_u s1)) \<and>
         (v1 \<noteq> SUCCESSFUL_RETURN \<and> v2 \<noteq> SUCCESSFUL_RETURN \<longrightarrow>
            solve q s = initProblem q (s1\<lparr>m_problem := p2\<rparr>)
              (m_H s1) (m_g s1) (m_A s1) (m_lA s1) (m_uA s1) (m_l s1) (m_u s1)) \<and>
         (\<exists>r s'. solve q s = Some (r, s')) \<and>
         (\<forall>s'. solve q s = Some (False, s') \<longrightarrow>
            initProblem q (snd (readSolution q (s1\<lparr>m_problem := p1\<rparr>)))
              (m_H s1) (m_g s1) (m_A s1) (m_lA s1) (m_uA s1) (m_l s1) (m_u s1) = Some (False, s') \<or>
            initProblem q (snd (readSolution q (s1\<lparr>m_problem := p2\<rparr>)))
              (m_H s1) (m_g s1) (m_A s1) (m_lA s1) (m_uA s1) (m_l s1) (m_u s1) = Some (False, s') \<or>
            initProblem q (s1\<lparr>m_problem := p2\<rparr>)
              (m_H s1) (m_g s1) (m_A s1) (m_lA s1) (m_uA s1) (m_l s1) (m_u s1) = Some (False, s'))"
proof -
  have hot: "solve q s = solve_finish q (s1\<lparr>m_problem := p1\<rparr>)"
    if "v1 = SUCCESSFUL_RETURN"
    using that assms(1,2) by (simp add: solve_hot)
  have warm: "solve q s = solve_finish q (s1\<lparr>m_problem := p2\<rparr>)"
    if "v1 \<noteq> SUCCESSFUL_RETURN" "v2 = SUCCESSFUL_RETURN"
    using that assms by (simp add: solve_warm)
  have cold: "solve q s = initProblem q (s1\<lparr>m_problem := p2\<rparr>)
              (m_H s1) (m_g s1) (m_A s1) (m_lA s1) (m_uA s1) (m_l s1) (m_u s1)"
    if "v1 \<noteq> SUCCESSFUL_RETURN" "v2 \<noteq> SUCCESSFUL_RETURN"
    using that assms by (simp add: solve_cold)
  have fin: "solve_finish q (s1\<lparr>m_problem := p\<rparr>) =
      (if fst (readSolution q (s1\<lparr>m_problem := p\<rparr>)) = SUCCESSFUL_RETURN
       then Some (True, snd (readSolution q (s1\<lparr>m_problem := p\<rparr>)))
       else initProblem q (snd (readSolution q (s1\<lparr>m_problem := p\<rparr>)))
              (m_H s1) (m_g s1) (m_A s1) (m_lA s1) (m_uA s1) (m_l s1) (m_u s1))" for p
    using solve_finish_readable [of q "s1\<lparr>m_problem := p\<rparr>"]
      solve_finish_unreadable [of q "s1\<lparr>m_problem := p\<rparr>"]
    by simp
  have init: "\<exists>r s'. initProblem q t
              (m_H s1) (m_g s1) (m_A s1) (m_lA s1) (m_uA s1) (m_l s1) (m_u s1) = Some (r, s')" for t
    using sanitized_lengths [OF assms(1)] by (intro initProblem_defined)
  have "\<exists>r s'. solve q s = Some (r, s')"
  proof (cases "v1 = SUCCESSFUL_RETURN")
    case True
    then show ?thesis using hot fin [of p1] init by auto
  next
    case False
    then show ?thesis using warm cold fin [of p2] init
      by (cases "v2 = SUCCESSFUL_RETURN") auto
  qed
  moreover have "initProblem q (snd (readSolution q (s1\<lparr>m_problem := p1\<rparr>)))
              (m_H s1) (m_g s1) (m_A s1) (m_lA s1) (m_uA s1) (m_l s1) (m_u s1) = Some (False, s') \<or>
            initProblem q (snd (readSolution q (s1\<lparr>m_problem := p2\<rparr>)))
              (m_H s1) (m_g s1) (m_A s1) (m_lA s1) (m_uA s1) (m_l s1) (m_u s1) = Some (False, s') \<or>
            initProblem q (s1\<lparr>m_problem := p2\<rparr>)
              (m_H s1) (m_g s1) (m_A s1) (m_lA s1) (m_uA s1) (m_l s1) (m_u s1) = Some (False, s')"
    if f: "solve q s = Some (False, s')" for s'
  proof (cases "v1 = SUCCESSFUL_RETURN")
    case True
    then show ?thesis using f hot fin [of p1] by (auto split: if_splits)
  next
    case False
    then show ?thesis using f warm cold fin [of p2]
      by (cases "v2 = SUCCESSFUL_RETURN") (auto split: if_splits)
  qed
  ultimately show ?thesis using hot warm cold fin by simp
qed

text \<open>
  Runs of the theorem of C2.  On the scripted solver: the hotstart succeeds and is
  the only call; the hotstart fails and the warm-started \<^verbatim>\<open>init\<close> succeeds; both
  fail and the cold \<^verbatim>\<open>init\<close> succeeds, the solver having received the three calls
  in this order.  On the library that refuses the primal solution: the hotstart
  succeeds, and the cold \<^verbatim>\<open>init\<close> follows it.
\<close>

theorem solve_three_tier_witness:
  "solve scripted solved_backend = Some (True, hotstarted_backend) \<and>
   solve scripted warm_backend =
     Some (True, solved_backend\<lparr>m_problem := (m_problem solved_backend)
        \<lparr>sq_calls := [''init'', ''hotstart'', ''init with guess'']\<rparr>\<rparr>) \<and>
   solve scripted failing_backend =
     Some (True, solved_backend\<lparr>m_problem := (m_problem solved_backend)
        \<lparr>sq_calls := [''init'', ''hotstart'', ''init with guess'', ''init'']\<rparr>\<rparr>) \<and>
   solve unreadable solved_backend =
     Some (False, solved_backend\<lparr>m_problem := (m_problem solved_backend)
        \<lparr>sq_calls := [''init'', ''hotstart'', ''init'']\<rparr>\<rparr>)"
  using solve_three_tier [where q = scripted and s = solved_backend and ?s1.0 = solved_backend
      and ?v1.0 = SUCCESSFUL_RETURN
      and ?p1.0 = "(m_problem solved_backend)\<lparr>sq_calls := [''init'', ''hotstart'']\<rparr>"
      and ?n1.0 = 132
      and ?v2.0 = SUCCESSFUL_RETURN
      and ?p2.0 = "(m_problem solved_backend)
          \<lparr>sq_calls := [''init'', ''hotstart'', ''init with guess'']\<rparr>"
      and ?n2.0 = 132]
    solve_three_tier [where q = scripted and s = warm_backend and ?s1.0 = warm_backend
      and ?v1.0 = "RET_OTHER 5"
      and ?p1.0 = "(m_problem solved_backend)
          \<lparr>sq_script := [], sq_solved := False, sq_calls := [''init'', ''hotstart'']\<rparr>"
      and ?n1.0 = 132
      and ?v2.0 = SUCCESSFUL_RETURN
      and ?p2.0 = "(m_problem solved_backend)
          \<lparr>sq_calls := [''init'', ''hotstart'', ''init with guess'']\<rparr>"
      and ?n2.0 = 132]
    solve_three_tier [where q = scripted and s = failing_backend and ?s1.0 = failing_backend
      and ?v1.0 = "RET_OTHER 5"
      and ?p1.0 = "(m_problem solved_backend)
          \<lparr>sq_script := [RET_INIT_FAILED_INFEASIBILITY], sq_solved := False,
           sq_calls := [''init'', ''hotstart'']\<rparr>"
      and ?n1.0 = 132
      and ?v2.0 = RET_INIT_FAILED_INFEASIBILITY
      and ?p2.0 = "(m_problem solved_backend)
          \<lparr>sq_script := [], sq_solved := False,
           sq_calls := [''init'', ''hotstart'', ''init with guess'']\<rparr>"
      and ?n2.0 = 132]
    solve_three_tier [where q = unreadable and s = solved_backend and ?s1.0 = solved_backend
      and ?v1.0 = SUCCESSFUL_RETURN
      and ?p1.0 = "(m_problem solved_backend)\<lparr>sq_calls := [''init'', ''hotstart'']\<rparr>"
      and ?n1.0 = 132
      and ?v2.0 = SUCCESSFUL_RETURN
      and ?p2.0 = "(m_problem solved_backend)
          \<lparr>sq_calls := [''init'', ''hotstart'', ''init with guess'']\<rparr>"
      and ?n2.0 = 132]
  by (simp add: failing_backend_def warm_backend_def hotstarted_backend_def solved_backend_def
      fresh_backend_eq H1_def A0_def
      rows_def initProblem_def checkINFTY_sanitize sanitize_def clamp_range_def
      readSolution_def Let_def scripted_sel unreadable_sel scripted_call_def)

text \<open>
  Claim C2 as it is stated fails.  With a library that refuses the primal
  solution, the hotstart on the solved backend returns \<^verbatim>\<open>SUCCESSFUL_RETURN\<close>, and
  \<^verbatim>\<open>solve()\<close> nevertheless returns failure: lines 303 to 308 send it to
  \<^verbatim>\<open>initProblem\<close>, whose own read of the solution fails.  The solver has received
  a hotstart and a cold \<^verbatim>\<open>init\<close>, and no warm-started \<^verbatim>\<open>init\<close>.
\<close>

theorem solve_fails_after_successful_hotstart:
  "SQProblem_hotstart unreadable (m_problem solved_backend) (m_H solved_backend)
       (m_g solved_backend) (m_A solved_backend) (m_l solved_backend) (m_u solved_backend)
       (m_lA solved_backend) (m_uA solved_backend) (m_nWSR solved_backend) =
     (SUCCESSFUL_RETURN, m_problem hotstarted_backend, 132) \<and>
   solve unreadable solved_backend =
     Some (False, solved_backend\<lparr>m_problem := (m_problem solved_backend)
        \<lparr>sq_calls := [''init'', ''hotstart'', ''init'']\<rparr>\<rparr>)"
  by (simp add: solve_def solve_finish_def hotstarted_backend_def solved_backend_def
      fresh_backend_eq H1_def A0_def
      rows_def initProblem_def checkINFTY_sanitize sanitize_def clamp_range_def
      readSolution_def Let_def unreadable_sel scripted_call_def)

subsection \<open>checkINFTY\<close>

text \<open>
  Claim C3 at a failing input.  The comment of \<^verbatim>\<open>checkINFTY\<close> in the header says
  that a bound or constraint above \<open>INFTY\<close> is set to \<open>INFTY\<close> and one below
  \<open>- INFTY\<close> to \<open>- INFTY\<close>.  The code compares the lower vectors with \<open>- INFTY\<close> only
  and the upper vectors with \<open>INFTY\<close> only, over the lower vector's size: a lower
  bound of \<open>2 \<cdot> 10\<^sup>2\<^sup>0\<close>, above \<open>INFTY\<close>, is kept, while the upper bound above it is
  lowered to \<open>INFTY\<close>; and an upper bound of \<open>3 \<cdot> 10\<^sup>2\<^sup>0\<close> is kept when the vector of
  lower bounds is empty.
\<close>

theorem checkINFTY_keeps_large_lower_bound:
  "checkINFTY scripted crossed_backend =
     Some (crossed_backend\<lparr>m_u := [100000000000000000000]\<rparr>) \<and>
   m_l (crossed_backend\<lparr>m_u := [100000000000000000000]\<rparr>) = [200000000000000000000] \<and>
   INFTY scripted < 200000000000000000000 \<and>
   checkINFTY scripted unmatched_backend = Some unmatched_backend \<and>
   m_u unmatched_backend = [300000000000000000000]"
  by (simp add: checkINFTY_sanitize crossed_backend_def unmatched_backend_def
      solved_backend_def fresh_backend_eq sanitize_def clamp_range_def)

subsection \<open>updateTask\<close>

text \<open>
  Claim C4 at a failing input.  \<^verbatim>\<open>updateTask(H1, [0, 0])\<close> on the solved backend
  succeeds in place, although its \<^verbatim>\<open>g\<close> has two rows and its \<^verbatim>\<open>H\<close> one: the in-place
  path does not compare the arguments with each other.  From then on the check of
  the stored \<^verbatim>\<open>_g\<close> against the stored \<^verbatim>\<open>_H\<close> (lines 146 to 150) rejects every
  update: \<^verbatim>\<open>updateTask(H1, [0])\<close>, whose \<^verbatim>\<open>H\<close> has the rows and the columns of the
  stored one, returns failure and stores nothing.
\<close>

theorem updateTask_stored_g_guard:
  "updateTask scripted solved_backend H1 [0, 0] = Some (True, long_g_backend) \<and>
   rows H1 = rows (m_H long_g_backend) \<and> cols H1 = cols (m_H long_g_backend) \<and>
   updateTask scripted long_g_backend H1 [0] = Some (False, long_g_backend)"
  by (simp add: long_g_backend_def solved_backend_def fresh_backend_eq H1_def
      rows_def updateTask_def)

subsection \<open>updateProblem\<close>

text \<open>
  Claim C5.  \<^verbatim>\<open>updateProblem\<close> runs \<^verbatim>\<open>updateBounds\<close> first; when that fails, the
  result is failure with the state unchanged (neither the constraints nor the task
  have been stored).  When it succeeds with the state \<open>s1\<close>, \<^verbatim>\<open>updateConstraints\<close>
  runs on \<open>s1\<close> (and returns); when that fails with the state \<open>s2\<close>, the result is
  failure with the state \<open>s2\<close> (the task has not been stored).  When it succeeds
  with \<open>s2\<close>, the result is that of \<^verbatim>\<open>updateTask\<close> on \<open>s2\<close> (which returns): success
  iff all three succeed.
\<close>

theorem updateProblem_order:
  "(updateBounds s l u = (False, s1) \<longrightarrow>
      s1 = s \<and> updateProblem q s H g A lA uA l u = Some (False, s)) \<and>
   (updateBounds s l u = (True, s1) \<longrightarrow> updateConstraints q s1 A lA uA \<noteq> None) \<and>
   (updateBounds s l u = (True, s1) \<and> updateConstraints q s1 A lA uA = Some (False, s2) \<longrightarrow>
      updateProblem q s H g A lA uA l u = Some (False, s2)) \<and>
   (updateBounds s l u = (True, s1) \<and> updateConstraints q s1 A lA uA = Some (True, s2) \<longrightarrow>
      updateTask q s2 H g \<noteq> None \<and>
      updateProblem q s H g A lA uA l u = updateTask q s2 H g)"
proof -
  have 1: "s1 = s \<and> updateProblem q s H g A lA uA l u = Some (False, s)"
    if "updateBounds s l u = (False, s1)"
    using that updateBounds_False [OF that] by (simp add: updateProblem_def and_then_def)
  have 2: "updateConstraints q s1 A lA uA \<noteq> None" if "updateBounds s l u = (True, s1)"
  proof -
    from updateBounds_True [OF that] have "length (m_l s1) \<le> length (m_u s1)" by simp
    from updateConstraints_defined [OF this] show ?thesis by (metis option.distinct(1))
  qed
  have 3: "updateProblem q s H g A lA uA l u = Some (False, s2)"
    if "updateBounds s l u = (True, s1)" "updateConstraints q s1 A lA uA = Some (False, s2)"
    using that by (simp add: updateProblem_def and_then_def)
  have 4: "updateTask q s2 H g \<noteq> None \<and>
      updateProblem q s H g A lA uA l u = updateTask q s2 H g"
    if ub: "updateBounds s l u = (True, s1)"
      and uc: "updateConstraints q s1 A lA uA = Some (True, s2)"
  proof -
    from updateBounds_True [OF ub] have "length (m_l s1) = length (m_u s1)" by simp
    from updateConstraints_True [OF uc this]
    have "length (m_lA s2) \<le> length (m_uA s2)" "length (m_l s2) \<le> length (m_u s2)"
      by simp_all
    then have "\<exists>r s'. updateTask q s2 H g = Some (r, s')"
      using initProblem_defined [of "m_lA s2" "m_uA s2" "m_l s2" "m_u s2" q _ H g "m_A s2"]
      by (auto simp: updateTask_def rebuildProblem_eq)
    then obtain b3 s3 where ut: "updateTask q s2 H g = Some (b3, s3)" by blast
    with ub uc show ?thesis
      by (simp add: updateProblem_def and_then_def)
  qed
  from 1 2 3 4 show ?thesis by blast
qed

text \<open>
  Runs of the theorem of C5: rejected bounds stop the update before the
  constraints, rejected constraints stop it after the bounds and before the task,
  and an update whose three parts succeed.
\<close>

theorem updateProblem_order_witness:
  "updateProblem scripted solved_backend H1 [0] A1 [0] [1] [-2, 0] [2, 0] =
     Some (False, solved_backend) \<and>
   updateProblem scripted solved_backend H1 [0] A1 [0] [1, 1] [-2] [2] =
     Some (False, solved_backend\<lparr>m_l := [-2], m_u := [2]\<rparr>) \<and>
   updateProblem scripted solved_backend H2 [3, 4] A1 [0] [1] [-2] [2] =
     Some (True, solved_backend\<lparr>m_problem := (m_problem solved_backend)\<lparr>sq_nC := 1\<rparr>,
        m_H := H2, m_g := [3, 4], m_A := A1, m_lA := [0], m_uA := [1], m_l := [-2], m_u := [2],
        m_dual_solution := [0, 0]\<rparr>)"
  using updateProblem_order [where s = solved_backend and l = "[-2, 0]" and u = "[2, 0]"
      and ?s1.0 = solved_backend and q = scripted and H = H1 and g = "[0]" and A = A1
      and lA = "[0]" and uA = "[1]"]
    updateProblem_order [where s = solved_backend and l = "[-2]" and u = "[2]"
      and ?s1.0 = "solved_backend\<lparr>m_l := [-2], m_u := [2]\<rparr>"
      and ?s2.0 = "solved_backend\<lparr>m_l := [-2], m_u := [2]\<rparr>"
      and q = scripted and H = H1 and g = "[0]" and A = A1 and lA = "[0]" and uA = "[1, 1]"]
    updateProblem_order [where s = solved_backend and l = "[-2]" and u = "[2]"
      and ?s1.0 = "solved_backend\<lparr>m_l := [-2], m_u := [2]\<rparr>"
      and ?s2.0 = "solved_backend\<lparr>m_problem := (m_problem solved_backend)\<lparr>sq_nC := 1\<rparr>,
         m_A := A1, m_lA := [0], m_uA := [1], m_l := [-2], m_u := [2],
         m_dual_solution := [0, 0]\<rparr>"
      and q = scripted and H = H2 and g = "[3, 4]" and A = A1 and lA = "[0]" and uA = "[1]"]
  by (simp add: updateBounds_def updateConstraints_def updateTask_def rebuildProblem_eq
      solved_backend_def fresh_backend_eq H1_def H2_def A0_def A1_def
      rows_def initProblem_def checkINFTY_sanitize sanitize_def clamp_range_def
      readSolution_def Let_def scripted_sel scripted_call_def)

subsection \<open>updateBounds\<close>

text \<open>
  Claim C6, as the code has it.  \<^verbatim>\<open>updateBounds(l, u)\<close> returns failure and leaves the
  whole state unchanged when the size of \<^verbatim>\<open>l\<close> differs from the stored \<^verbatim>\<open>_l\<close>'s, the
  size of \<^verbatim>\<open>u\<close> differs from the stored \<^verbatim>\<open>_u\<close>'s, or the sizes of \<^verbatim>\<open>l\<close> and \<^verbatim>\<open>u\<close>
  differ from each other; otherwise it replaces the stored \<^verbatim>\<open>_l\<close> and \<^verbatim>\<open>_u\<close>, touches
  nothing else, and returns success.  In no case is the solver object rebuilt or
  initialised again.
\<close>

theorem updateBounds_sizes:
  "updateBounds s l u =
     (if length l = length (m_l s) \<and> length u = length (m_u s) \<and> length l = length u
      then (True, s\<lparr>m_l := l, m_u := u\<rparr>) else (False, s)) \<and>
   m_problem (snd (updateBounds s l u)) = m_problem s"
  by (simp add: updateBounds_def)

text \<open>
  Claim C6 as it is stated fails.  The failed call
  \<^verbatim>\<open>initProblem(H1, [0], A0, [], [], [], [1])\<close> on a fresh backend leaves an empty
  \<^verbatim>\<open>_l\<close> and a \<^verbatim>\<open>_u\<close> of size one behind; \<^verbatim>\<open>updateBounds([], [5])\<close> then has both
  sizes equal to the stored ones, and returns failure.
\<close>

theorem updateBounds_mismatched_stored_sizes:
  "initProblem scripted fresh_backend H1 [0] A0 [] [] [] [1] = Some (False, mismatched_backend) \<and>
   length ([] :: vec) = length (m_l mismatched_backend) \<and>
   length [5 :: real] = length (m_u mismatched_backend) \<and>
   updateBounds mismatched_backend [] [5] = (False, mismatched_backend)"
  by (simp add: initProblem_def checkINFTY_sanitize sanitize_def clamp_range_def
      fresh_backend_eq mismatched_backend_def updateBounds_def scripted_def)

subsection \<open>The frame of solve\<close>



section \<open>The claims about Constraint\<close>

text \<open>
  Claim C7, as the code has it.  \<^verbatim>\<open>isUnilateralConstraint()\<close> is true iff the
  constraint is an inequality (\<^verbatim>\<open>_Aineq\<close> has rows) and at least one of
  \<^verbatim>\<open>_bLowerBound\<close>, \<^verbatim>\<open>_bUpperBound\<close> is empty; \<^verbatim>\<open>isBilateralConstraint()\<close> is true
  iff the constraint is an inequality and not unilateral, that is, an inequality
  with both vectors non-empty; an inequality constraint with both vectors empty is
  unilateral.
\<close>

theorem constraint_classification:
  "isUnilateralConstraint c =
     (isInequalityConstraint c \<and> (c_bLowerBound c = [] \<or> c_bUpperBound c = [])) \<and>
   isBilateralConstraint c = (isInequalityConstraint c \<and> \<not> isUnilateralConstraint c) \<and>
   isBilateralConstraint c =
     (rows (c_Aineq c) > 0 \<and> c_bLowerBound c \<noteq> [] \<and> c_bUpperBound c \<noteq> []) \<and>
   isUnilateralConstraint (c\<lparr>c_bLowerBound := [], c_bUpperBound := []\<rparr>) =
     isInequalityConstraint c"
  by (auto simp: isUnilateralConstraint_def isBilateralConstraint_def isInequalityConstraint_def)

text \<open>
  Claim C7 as it is stated fails: the inequality constraint without any bound is
  unilateral for the code, although not exactly one of its two vectors is empty.
\<close>

theorem unbounded_inequality_unilateral:
  "isInequalityConstraint unbounded_inequality \<and>
   c_bLowerBound unbounded_inequality = [] \<and> c_bUpperBound unbounded_inequality = [] \<and>
   isUnilateralConstraint unbounded_inequality \<and>
   isUnilateralConstraint unbounded_inequality \<noteq>
     (isInequalityConstraint unbounded_inequality \<and>
      ((c_bLowerBound unbounded_inequality = []) \<noteq> (c_bUpperBound unbounded_inequality = [])))"
  by (simp add: unbounded_inequality_def isUnilateralConstraint_def
      isInequalityConstraint_def rows_def)

section \<open>The claims about Aggregated\<close>

text \<open>
  Claim C8.  Two tasks of the same \<open>x_size\<close> share the constraint instance \<open>C\<close>;
  the first also has the constraint \<open>D1\<close> and the second the constraint \<open>D2\<close>, the
  three being distinct instances.  Then the aggregate of the two tasks, in either
  order, has exactly three constraints, among which \<open>C\<close> occurs exactly once.
\<close>

theorem aggregated_constraints_deduplicated:
  assumes "store p1 = Some t1" and "store p2 = Some t2"
    and "t_x_size t1 = n" and "t_x_size t2 = n"
    and "distinct (t_constraints t1)" and "set (t_constraints t1) = {C, D1}"
    and "distinct (t_constraints t2)" and "set (t_constraints t2) = {C, D2}"
    and "C \<noteq> D1" and "C \<noteq> D2" and "D1 \<noteq> D2"
  shows "\<exists>a b. Aggregated_new store [p1, p2] n = Some a \<and>
           Aggregated_new store [p2, p1] n = Some b \<and>
           length (t_constraints a) = 3 \<and> count_list (t_constraints a) C = 1 \<and>
           length (t_constraints b) = 3 \<and> count_list (t_constraints b) C = 1 \<and>
           set (t_constraints a) = {C, D1, D2} \<and> set (t_constraints b) = {C, D1, D2}"
proof -
  from Aggregated_new_two [OF assms(1,2,3,4)] obtain a where
    a: "Aggregated_new store [p1, p2] n = Some a"
      "t_constraints a = appendUnique (appendUnique [] (t_constraints t1)) (t_constraints t2)"
    by blast
  from Aggregated_new_two [OF assms(2,1,4,3)] obtain b where
    b: "Aggregated_new store [p2, p1] n = Some b"
      "t_constraints b = appendUnique (appendUnique [] (t_constraints t2)) (t_constraints t1)"
    by blast
  have da: "distinct (t_constraints a)" and db: "distinct (t_constraints b)"
    by (simp_all add: a b appendUnique_distinct)
  have sa: "set (t_constraints a) = {C, D1, D2}" and sb: "set (t_constraints b) = {C, D1, D2}"
    using assms(6,8) by (auto simp: a b appendUnique_set)
  from three_distinct [OF da sa assms(9,10,11)] three_distinct [OF db sb assms(9,10,11)] a(1) b(1) sa sb
  show ?thesis by blast
qed

text \<open>
  A run of the theorem of C8 on the two tasks of the store: the constraint lists of
  the two aggregates.
\<close>

theorem aggregated_constraints_deduplicated_witness:
  "map_option t_constraints (Aggregated_new two_tasks [10, 20] 2) = Some [0, 1, 2] \<and>
   map_option t_constraints (Aggregated_new two_tasks [20, 10] 2) = Some [2, 0, 1] \<and>
   (\<exists>a b. Aggregated_new two_tasks [10, 20] 2 = Some a \<and>
           Aggregated_new two_tasks [20, 10] 2 = Some b \<and>
           length (t_constraints a) = 3 \<and> count_list (t_constraints a) 0 = 1 \<and>
           length (t_constraints b) = 3 \<and> count_list (t_constraints b) 0 = 1)"
proof -
  have "map_option t_constraints (Aggregated_new two_tasks [10, 20] 2) = Some [0, 1, 2]"
    "map_option t_constraints (Aggregated_new two_tasks [20, 10] 2) = Some [2, 0, 1]"
    by (simp_all add: Aggregated_new_def generateAll_def subTasks_def List.map_filter_def
        Let_def two_tasks_def posturalOne_def posturalTwo_def)
  moreover have "\<exists>a b. Aggregated_new two_tasks [10, 20] 2 = Some a \<and>
           Aggregated_new two_tasks [20, 10] 2 = Some b \<and>
           length (t_constraints a) = 3 \<and> count_list (t_constraints a) 0 = 1 \<and>
           length (t_constraints b) = 3 \<and> count_list (t_constraints b) 0 = 1 \<and>
           set (t_constraints a) = {0, 1, 2} \<and> set (t_constraints b) = {0, 1, 2}"
    using aggregated_constraints_deduplicated
      [of two_tasks 10 posturalOne 20 posturalTwo 2 0 1 2]
    by (simp add: two_tasks_def posturalOne_def posturalTwo_def insert_commute)
  ultimately show ?thesis by blast
qed

text \<open>
  Claim C9.  For two tasks of the same \<open>x_size\<close> in the store, the aggregate
  exists, and after its \<^verbatim>\<open>update\<close> its \<open>A\<close> is the stack of the first task's \<open>A\<close> on
  the second task's \<open>A\<close>, row by row in this order, and its \<open>b\<close> is the first task's
  \<open>lambda \<cdot> b\<close> followed by the second task's, the tasks being read after their own
  update.
\<close>

theorem aggregated_stacks_in_order:
  assumes "store p1 = Some t1" and "store p2 = Some t2"
    and "t_x_size t1 = n" and "t_x_size t2 = n"
  shows "\<exists>a store' a' t1' t2'.
           Aggregated_new store [p1, p2] n = Some a \<and>
           Aggregated_update upd x store a = (store', a') \<and>
           store' p1 = Some t1' \<and> store' p2 = Some t2' \<and>
           t_A a' = vstack n [t_A t1', t_A t2'] \<and>
           cols (t_A a') = n \<and>
           coeffs (t_A a') = coeffs (t_A t1') @ coeffs (t_A t2') \<and>
           rows (t_A a') = rows (t_A t1') + rows (t_A t2') \<and>
           t_b a' = map (\<lambda>y. t_lambda t1' * y) (t_b t1') @ map (\<lambda>y. t_lambda t2' * y) (t_b t2')"
proof -
  from Aggregated_new_two [OF assms] obtain a where
    a: "Aggregated_new store [p1, p2] n = Some a" "a_tasks a = [p1, p2]" "t_x_size a = n"
    by blast
  let ?st = "updateSubTasks upd x (a_tasks a) store"
  from updateSubTasks_two [OF assms(1,2), of upd x] a(2) obtain t1' t2' where
    t: "?st p1 = Some t1'" "?st p2 = Some t2'" by auto
  have u: "Aggregated_update upd x store a = (?st, generateAll ?st a)"
    by (simp add: Aggregated_update_def Let_def)
  from generateAll_two [OF t a(2)] a(3)
  have "t_A (generateAll ?st a) = vstack n [t_A t1', t_A t2']"
    "t_b (generateAll ?st a) =
       map (\<lambda>y. t_lambda t1' * y) (t_b t1') @ map (\<lambda>y. t_lambda t2' * y) (t_b t2')"
    by simp_all
  with a(1) u t show ?thesis
    by (simp add: vstack_def rows_def)
qed

text \<open>
  A run of the theorem of C9 on the two tasks of the store, whose update adds the
  state \<open>[10, 10]\<close> to the residuals.
\<close>

theorem aggregated_stacks_in_order_witness:
  "(\<exists>a store' a'.
      Aggregated_new two_tasks [10, 20] 2 = Some a \<and>
      Aggregated_update shift_b [10, 10] two_tasks a = (store', a') \<and>
      store' 10 = Some (posturalOne\<lparr>t_b := [11, 12]\<rparr>) \<and>
      store' 20 = Some (posturalTwo\<lparr>t_b := [13, 14]\<rparr>) \<and>
      t_A a' = \<lparr>cols = 2, coeffs = [[1, 0], [0, 1], [2, 0], [0, 2]]\<rparr> \<and>
      t_b a' = [11 / 2, 6, 13, 14])"
  using aggregated_stacks_in_order [of two_tasks 10 posturalOne 20 posturalTwo 2 shift_b "[10, 10]"]
  by (simp add: Aggregated_new_def Aggregated_update_def updateSubTasks_def generateAll_def
      subTasks_def List.map_filter_def Let_def vstack_def rows_def shift_b_def
      two_tasks_def posturalOne_def posturalTwo_def)

end
